theory Spec2Isabelle
  imports Main
begin

section \<open>The session store of the clock-in bot\<close>

text \<open>
  The repository holds two near-duplicate implementations of the bot:
  \<^verbatim>\<open>src/index.js\<close> and \<^verbatim>\<open>src/unnamed/part_000\<close>. Functions of
  \<^verbatim>\<open>index.js\<close> keep their source names; where \<^verbatim>\<open>part_000\<close> differs, its
  function carries the suffix \<open>_p0\<close>.

  A session is one element of \<^verbatim>\<open>data.sessions\<close>. This first layer gives every field the
  type that \<^verbatim>\<open>addSession\<close>, the break toggle and \<^verbatim>\<open>closeSession\<close> write:
  timestamps and durations are integers (milliseconds, \<^verbatim>\<open>Date.now()\<close>), \<open>None\<close> is
  JavaScript's \<^verbatim>\<open>null\<close>. Records loaded from older files, whose break fields are
  missing, are the subject of the second layer further down.
\<close>

record session =
  id_s :: string
  guildId :: string
  userId :: string
  departmentId :: string
  clockIn :: int
  clockOut :: "int option"
  duration :: "int option"
  onBreak :: bool
  breakStart :: "int option"
  totalBreak :: int

text \<open>
  \<^verbatim>\<open>Array.prototype.find\<close> is \<^const>\<open>find\<close>: the first element that satisfies the
  predicate. The JavaScript code then mutates the object it found; in the list that is an
  update of the first element satisfying the same predicate.
\<close>

fun updateFirst :: "('a \<Rightarrow> bool) \<Rightarrow> ('a \<Rightarrow> 'a) \<Rightarrow> 'a list \<Rightarrow> 'a list" where
  "updateFirst P f [] = []"
| "updateFirst P f (x # xs) = (if P x then f x # xs else x # updateFirst P f xs)"

text \<open>JavaScript's numeric reading of a value that is a number or \<^verbatim>\<open>null\<close>: \<^verbatim>\<open>null\<close> is 0.\<close>

fun toNumber :: "int option \<Rightarrow> int" where
  "toNumber None = 0"
| "toNumber (Some n) = n"

text \<open>Truthiness of a value that is a number or \<^verbatim>\<open>null\<close>: \<^verbatim>\<open>null\<close> and 0 are falsy.\<close>

fun truthy :: "int option \<Rightarrow> bool" where
  "truthy None = False"
| "truthy (Some n) = (n \<noteq> 0)"

definition isActive :: "string \<Rightarrow> string \<Rightarrow> string \<Rightarrow> session \<Rightarrow> bool" where
  "isActive g u d s \<longleftrightarrow>
     guildId s = g \<and> userId s = u \<and> departmentId s = d \<and> clockOut s = None"

definition getActiveSession :: "session list \<Rightarrow> string \<Rightarrow> string \<Rightarrow> string \<Rightarrow> session option" where
  "getActiveSession sessions g u d = find (isActive g u d) sessions"

text \<open>
  The id is \<^verbatim>\<open>Date.now() + '_' + Math.random().toString(36).slice(2)\<close>; the model takes
  the generated string as the argument \<open>newId\<close>.
\<close>

definition addSession ::
  "session list \<Rightarrow> string \<Rightarrow> string \<Rightarrow> string \<Rightarrow> string \<Rightarrow> int \<Rightarrow> session list" where
  "addSession sessions newId g u d t =
     sessions @ [\<lparr>id_s = newId, guildId = g, userId = u, departmentId = d, clockIn = t,
                  clockOut = None, duration = None, onBreak = False, breakStart = None,
                  totalBreak = 0\<rparr>]"

text \<open>
  \<^verbatim>\<open>closeSession\<close> (index.js 81-97, part_000 75-105). On fields of the types above the
  two files compute the same: the \<^verbatim>\<open>typeof\<close> defaults of part_000 do nothing and
  \<^verbatim>\<open>s.totalBreak || 0\<close> is \<^verbatim>\<open>s.totalBreak\<close>. The result is \<open>None\<close> for an unknown
  id, else the pair (duration, breakTotal) that the function returns together with the
  collection it saved.
\<close>

definition foldedBreak :: "session \<Rightarrow> int \<Rightarrow> int" where
  "foldedBreak s t =
     (if onBreak s \<and> truthy (breakStart s)
      then totalBreak s + (t - toNumber (breakStart s)) else totalBreak s)"

definition workedDuration :: "session \<Rightarrow> int \<Rightarrow> int" where
  "workedDuration s t = max (t - clockIn s - foldedBreak s t) 0"

definition closedFields :: "session \<Rightarrow> int \<Rightarrow> session" where
  "closedFields s t =
     s\<lparr>clockOut := Some t, duration := Some (workedDuration s t),
       onBreak := False, breakStart := None, totalBreak := foldedBreak s t\<rparr>"

definition closeSession ::
  "session list \<Rightarrow> string \<Rightarrow> int \<Rightarrow> ((int \<times> int) \<times> session list) option" where
  "closeSession sessions sessionId t =
     (case find (\<lambda>x. id_s x = sessionId) sessions of
        None \<Rightarrow> None
      | Some s \<Rightarrow>
          Some ((workedDuration s t, foldedBreak s t),
                updateFirst (\<lambda>x. id_s x = sessionId) (\<lambda>x. closedFields x t) sessions))"

definition getUserTotalDuration :: "session list \<Rightarrow> string \<Rightarrow> string \<Rightarrow> int" where
  "getUserTotalDuration sessions g u =
     foldl (\<lambda>a b. a + toNumber (duration b)) 0
       (filter (\<lambda>s. guildId s = g \<and> userId s = u \<and> duration s \<noteq> None) sessions)"

section \<open>The button handler\<close>

text \<open>
  What the handler answers. The two rejections carry the literal message; the other
  replies carry the numbers the message is formatted from. \<open>Thrown\<close> is the TypeError of
  index.js when \<^verbatim>\<open>closeSession\<close> returns \<^verbatim>\<open>null\<close>.
\<close>

datatype reply =
    Rejected string
  | ClockedIn
  | BreakStarted
  | BreakEnded int
  | ClockedOut int int int
  | CloseError
  | NoReply
  | Thrown

text \<open>
  \<^verbatim>\<open>handleClockButton\<close> of index.js (334-427). \<open>action\<close> and \<open>dept\<close> are the two
  parts of the button's custom id (\<^verbatim>\<open>customId.split('_')\<close>, for an id that contains the
  separator), \<open>now\<close> is \<^verbatim>\<open>Date.now()\<close>. The second component of
  the result is the stored collection after the event: the handler loads it, and saves it
  in every branch that changes it.
\<close>

definition handleClockButton ::
  "session list \<Rightarrow> string \<Rightarrow> string \<Rightarrow> string \<Rightarrow> string \<Rightarrow> int \<Rightarrow> string
     \<Rightarrow> reply \<times> session list" where
  "handleClockButton sessions action dept user guild now newId =
     (if action = ''clockin'' then
        (case getActiveSession sessions guild user dept of
           Some a \<Rightarrow> (Rejected ''Already clocked in!'', sessions)
         | None \<Rightarrow> (ClockedIn, addSession sessions newId guild user dept now))
      else
        (case getActiveSession sessions guild user dept of
           None \<Rightarrow> (Rejected ''You are not clocked in.'', sessions)
         | Some active \<Rightarrow>
             if action = ''break'' then
               (if \<not> onBreak active then
                  (BreakStarted,
                   updateFirst (isActive guild user dept)
                     (\<lambda>s. s\<lparr>onBreak := True, breakStart := Some now\<rparr>) sessions)
                else
                  (let br = now - toNumber (breakStart active) in
                   (BreakEnded br,
                    updateFirst (isActive guild user dept)
                      (\<lambda>s. s\<lparr>onBreak := False, breakStart := None,
                              totalBreak := totalBreak s + br\<rparr>) sessions)))
             else if action = ''clockout'' then
               (case closeSession sessions (id_s active) now of
                  None \<Rightarrow> (Thrown, sessions)
                | Some ((dur, brk), sessions') \<Rightarrow>
                    (ClockedOut dur brk (getUserTotalDuration sessions' guild user), sessions'))
             else (NoReply, sessions)))"

text \<open>
  \<^verbatim>\<open>handleClockButton\<close> of part_000 (457-621). A custom id that starts with none of
  \<^verbatim>\<open>clockin_\<close>, \<^verbatim>\<open>clockout_\<close>, \<^verbatim>\<open>break_\<close> returns at once, so \<open>action\<close> is one of
  the three words below. Ending a break reads \<^verbatim>\<open>active.breakStart || now\<close>.
\<close>

definition handleClockButton_p0 ::
  "session list \<Rightarrow> string \<Rightarrow> string \<Rightarrow> string \<Rightarrow> string \<Rightarrow> int \<Rightarrow> string
     \<Rightarrow> reply \<times> session list" where
  "handleClockButton_p0 sessions action dept user guild now newId =
     (if action \<noteq> ''clockin'' \<and> action \<noteq> ''clockout'' \<and> action \<noteq> ''break'' then
        (NoReply, sessions)
      else if action = ''clockin'' then
        (case getActiveSession sessions guild user dept of
           Some a \<Rightarrow>
             (Rejected
                ''You are already clocked in for this department. Please clock out first.'',
              sessions)
         | None \<Rightarrow> (ClockedIn, addSession sessions newId guild user dept now))
      else
        (case getActiveSession sessions guild user dept of
           None \<Rightarrow>
             (Rejected ''You are not currently clocked in for this department.'', sessions)
         | Some active \<Rightarrow>
             if action = ''break'' then
               (if \<not> onBreak active then
                  (BreakStarted,
                   updateFirst (isActive guild user dept)
                     (\<lambda>s. s\<lparr>onBreak := True, breakStart := Some now\<rparr>) sessions)
                else
                  (let bs = (if truthy (breakStart active) then toNumber (breakStart active)
                             else now);
                       br = now - bs in
                   (BreakEnded br,
                    updateFirst (isActive guild user dept)
                      (\<lambda>s. s\<lparr>onBreak := False, breakStart := None,
                              totalBreak := totalBreak s + br\<rparr>) sessions)))
             else
               (case closeSession sessions (id_s active) now of
                  None \<Rightarrow> (CloseError, sessions)
                | Some ((dur, brk), sessions') \<Rightarrow>
                    (ClockedOut dur brk (getUserTotalDuration sessions' guild user), sessions'))))"

text \<open>An inbound button event, and the handling of a sequence of events in order.\<close>

record event =
  ev_action :: string
  ev_dept :: string
  ev_user :: string
  ev_guild :: string
  ev_now :: int
  ev_newId :: string

definition step :: "session list \<Rightarrow> event \<Rightarrow> session list" where
  "step sessions e =
     snd (handleClockButton sessions (ev_action e) (ev_dept e) (ev_user e) (ev_guild e)
            (ev_now e) (ev_newId e))"

definition step_p0 :: "session list \<Rightarrow> event \<Rightarrow> session list" where
  "step_p0 sessions e =
     snd (handleClockButton_p0 sessions (ev_action e) (ev_dept e) (ev_user e) (ev_guild e)
            (ev_now e) (ev_newId e))"

definition run :: "session list \<Rightarrow> event list \<Rightarrow> session list" where
  "run sessions evs = foldl step sessions evs"

definition run_p0 :: "session list \<Rightarrow> event list \<Rightarrow> session list" where
  "run_p0 sessions evs = foldl step_p0 sessions evs"

text \<open>The number of open sessions of one (guild, user, department) key.\<close>

definition openCount :: "session list \<Rightarrow> string \<Rightarrow> string \<Rightarrow> string \<Rightarrow> nat" where
  "openCount sessions g u d = length (filter (isActive g u d) sessions)"


text \<open>
  The re-lookup of a session by id in the collection that \<^verbatim>\<open>closeSession\<close> saved:
  \<open>None\<close> when the close returned \<^verbatim>\<open>null\<close>.
\<close>

definition storedAfterClose :: "session list \<Rightarrow> string \<Rightarrow> int \<Rightarrow> session option" where
  "storedAfterClose sessions sessionId t =
     (case closeSession sessions sessionId t of
        None \<Rightarrow> None
      | Some (r, sessions') \<Rightarrow> find (\<lambda>x. id_s x = sessionId) sessions')"

text \<open>What \<^verbatim>\<open>closeSession\<close> returns, without the saved collection.\<close>

definition closeResult :: "session list \<Rightarrow> string \<Rightarrow> int \<Rightarrow> (int \<times> int) option" where
  "closeResult sessions sessionId t = map_option fst (closeSession sessions sessionId t)"

section \<open>Aggregation over a time window\<close>

text \<open>
  The window test of index.js, the same in its three windowed queries:
  \<^verbatim>\<open>s.duration != null && s.clockOut >= startMs && s.clockOut < endMs\<close>.
  A comparison reads a null \<open>clockOut\<close> as the number 0.
\<close>

definition inRange :: "int \<Rightarrow> int \<Rightarrow> session \<Rightarrow> bool" where
  "inRange startMs endMs s \<longleftrightarrow>
     duration s \<noteq> None \<and> toNumber (clockOut s) \<ge> startMs \<and> toNumber (clockOut s) < endMs"

text \<open>
  The window test of part_000, the same in each of its three queries: the session is skipped when
  \<^verbatim>\<open>s.duration == null\<close>, when \<^verbatim>\<open>s.clockOut == null\<close>, and when
  \<^verbatim>\<open>end < startMs || end >= endMs\<close> for \<^verbatim>\<open>end = s.clockOut\<close>.
\<close>

definition inRange_p0 :: "int \<Rightarrow> int \<Rightarrow> session \<Rightarrow> bool" where
  "inRange_p0 startMs endMs s \<longleftrightarrow>
     \<not> duration s = None \<and> \<not> clockOut s = None \<and>
     \<not> (toNumber (clockOut s) < startMs \<or> toNumber (clockOut s) \<ge> endMs)"

text \<open>index.js: \<^verbatim>\<open>filter\<close> then \<^verbatim>\<open>reduce((a, b) => a + b.duration, 0)\<close>.\<close>

definition getDepartmentTotalInRange ::
  "session list \<Rightarrow> string \<Rightarrow> string \<Rightarrow> int \<Rightarrow> int \<Rightarrow> int" where
  "getDepartmentTotalInRange sessions g dept startMs endMs =
     foldl (\<lambda>a b. a + toNumber (duration b)) 0
       (filter (\<lambda>s. guildId s = g \<and> departmentId s = dept \<and> inRange startMs endMs s)
          sessions)"

definition getUserTotalInRange ::
  "session list \<Rightarrow> string \<Rightarrow> string \<Rightarrow> int \<Rightarrow> int \<Rightarrow> int" where
  "getUserTotalInRange sessions g u startMs endMs =
     foldl (\<lambda>a b. a + toNumber (duration b)) 0
       (filter (\<lambda>s. guildId s = g \<and> userId s = u \<and> inRange startMs endMs s) sessions)"

text \<open>part_000: a \<^verbatim>\<open>for\<close> loop that adds to \<^verbatim>\<open>total\<close> unless it \<^verbatim>\<open>continue\<close>s.\<close>

definition getDepartmentTotalInRange_p0 ::
  "session list \<Rightarrow> string \<Rightarrow> string \<Rightarrow> int \<Rightarrow> int \<Rightarrow> int" where
  "getDepartmentTotalInRange_p0 sessions g dept startMs endMs =
     foldl (\<lambda>total s.
              if guildId s \<noteq> g then total
              else if departmentId s \<noteq> dept then total
              else if \<not> inRange_p0 startMs endMs s then total
              else total + toNumber (duration s)) 0 sessions"

definition getUserTotalInRange_p0 ::
  "session list \<Rightarrow> string \<Rightarrow> string \<Rightarrow> int \<Rightarrow> int \<Rightarrow> int" where
  "getUserTotalInRange_p0 sessions g u startMs endMs =
     foldl (\<lambda>total s.
              if guildId s \<noteq> g then total
              else if userId s \<noteq> u then total
              else if \<not> inRange_p0 startMs endMs s then total
              else total + toNumber (duration s)) 0 sessions"

text \<open>
  The \<^verbatim>\<open>Map\<close> of the per-user query is an association list in insertion order:
  \<^verbatim>\<open>totals.set\<close> replaces the value of a key that is present, in place, and appends a new
  key; \<^verbatim>\<open>totals.get\<close> is \<^const>\<open>map_of\<close>; \<^verbatim>\<open>totals.get(k) || 0\<close> is 0 for a missing
  key and for the value 0.
\<close>

fun mapSet :: "'k \<Rightarrow> 'v \<Rightarrow> ('k \<times> 'v) list \<Rightarrow> ('k \<times> 'v) list" where
  "mapSet k v [] = [(k, v)]"
| "mapSet k v ((k', v') # kvs) =
     (if k' = k then (k, v) # kvs else (k', v') # mapSet k v kvs)"

definition orZero :: "int option \<Rightarrow> int" where
  "orZero v = (if truthy v then toNumber v else 0)"

text \<open>
  \<^verbatim>\<open>getDepartmentTotalsInRange\<close>, the query the spec calls
  \<open>departmentTotalsByUserInRange\<close>. An entry \<^verbatim>\<open>{userId, total}\<close> is a pair. The
  comparator \<^verbatim>\<open>(a, b) => b.total - a.total\<close> orders by descending total, and
  \<^verbatim>\<open>Array.prototype.sort\<close> is stable: that is the stable insertion sort
  \<^const>\<open>sort_key\<close> on the negated total.
\<close>

definition getDepartmentTotalsInRange ::
  "session list \<Rightarrow> string \<Rightarrow> string \<Rightarrow> int \<Rightarrow> int \<Rightarrow> (string \<times> int) list" where
  "getDepartmentTotalsInRange sessions g dept startMs endMs =
     sort_key (\<lambda>(u, total). - total)
       (foldl (\<lambda>totals s.
                 if guildId s = g \<and> departmentId s = dept \<and> inRange startMs endMs s
                 then mapSet (userId s)
                        (orZero (map_of totals (userId s)) + toNumber (duration s)) totals
                 else totals) [] sessions)"

definition getDepartmentTotalsInRange_p0 ::
  "session list \<Rightarrow> string \<Rightarrow> string \<Rightarrow> int \<Rightarrow> int \<Rightarrow> (string \<times> int) list" where
  "getDepartmentTotalsInRange_p0 sessions g dept startMs endMs =
     sort_key (\<lambda>(u, total). - total)
       (foldl (\<lambda>totals s.
                 if guildId s \<noteq> g then totals
                 else if departmentId s \<noteq> dept then totals
                 else if \<not> inRange_p0 startMs endMs s then totals
                 else mapSet (userId s)
                        (orZero (map_of totals (userId s)) + toNumber (duration s)) totals)
          [] sessions)"

text \<open>
  The window of the spec, in its words: a session is counted when its \<open>duration\<close> is not null
  and its \<open>clockOut\<close> lies in the half-open window \<open>[startMs, endMs)\<close>.
\<close>

definition closedInWindow :: "int \<Rightarrow> int \<Rightarrow> session \<Rightarrow> bool" where
  "closedInWindow startMs endMs s \<longleftrightarrow>
     (case duration s of
        None \<Rightarrow> False
      | Some dur \<Rightarrow> (case clockOut s of None \<Rightarrow> False | Some c \<Rightarrow> startMs \<le> c \<and> c < endMs))"

text \<open>The worked milliseconds of a closed session.\<close>

definition worked :: "session \<Rightarrow> int" where
  "worked s = toNumber (duration s)"

text \<open>
  The body of the loop of the per-user query for a session test \<open>P\<close>; in both files the loop is
  a fold of it (lemmas \<open>totals_index\<close> and \<open>totals_p0\<close>).
\<close>

definition addTo :: "(session \<Rightarrow> bool) \<Rightarrow> (string \<times> int) list \<Rightarrow> session \<Rightarrow> (string \<times> int) list" where
  "addTo P totals s =
     (if P s then mapSet (userId s) (orZero (map_of totals (userId s)) + worked s) totals
      else totals)"

section \<open>Week ranges\<close>

text \<open>
  \<^verbatim>\<open>getCurrentWeekRange\<close> reads the clock and works on local-time dates. The model takes the
  clock reading \<open>now\<close> (milliseconds since the epoch) and the time zone of the process, which
  is what \<^verbatim>\<open>Date\<close> consults: \<open>offsetAt\<close> is the offset of local time from UTC, in
  milliseconds, in force at an instant (\<^verbatim>\<open>getFullYear\<close>, \<^verbatim>\<open>getMonth\<close>, \<^verbatim>\<open>getDate\<close>
  and \<^verbatim>\<open>getDay\<close> read the instant shifted by it), and \<open>offsetOfLocal\<close> is the offset that
  \<^verbatim>\<open>new Date(year, month, date, 0, 0, 0, 0)\<close> applies to a local wall-clock time. The two
  differ from one date to another where daylight saving changes.
\<close>

record range =
  startMs :: int
  endMs :: int

record zone =
  offsetAt :: "int \<Rightarrow> int"
  offsetOfLocal :: "int \<Rightarrow> int"

definition dayMs :: int where
  "dayMs = 24 * 60 * 60 * 1000"

text \<open>
  The local calendar date of an instant, as a day number counted from 1 January 1970 (year,
  month and date together), and the instant of local midnight of a day number. Day
  arithmetic on the \<^verbatim>\<open>date\<close> argument of the constructor is arithmetic on the day number.
\<close>

definition localDay :: "zone \<Rightarrow> int \<Rightarrow> int" where
  "localDay z t = (t + offsetAt z t) div dayMs"

definition localMidnight :: "zone \<Rightarrow> int \<Rightarrow> int" where
  "localMidnight z n = n * dayMs - offsetOfLocal z (n * dayMs)"

text \<open>
  \<^verbatim>\<open>getDay()\<close> is 0 on Sunday, and 1 January 1970 was a Thursday. \<open>sunday\<close> is
  \<^verbatim>\<open>new Date(year, month, date - day)\<close> and \<open>next\<close> is the date seven days after the local
  date of \<open>sunday\<close>.
\<close>

definition getCurrentWeekRange :: "zone \<Rightarrow> int \<Rightarrow> range" where
  "getCurrentWeekRange z now =
     (let today = localDay z now;
          day = (today + 4) mod 7;
          sunday = localMidnight z (today - day);
          next = localMidnight z (localDay z sunday + 7)
      in \<lparr>startMs = sunday, endMs = next\<rparr>)"

definition getWeekRangeForOffset :: "zone \<Rightarrow> int \<Rightarrow> int \<Rightarrow> range" where
  "getWeekRangeForOffset z now offset =
     (let r = getCurrentWeekRange z now;
          weekMs = 7 * 24 * 60 * 60 * 1000
      in \<lparr>startMs = startMs r - offset * weekMs, endMs = endMs r - offset * weekMs\<rparr>)"

text \<open>A zone with one offset all year, and US Eastern time around 1 November 2026, when
  daylight saving ends at 06:00 UTC (02:00 local daylight time).\<close>

definition fixedZone :: "int \<Rightarrow> zone" where
  "fixedZone tz = \<lparr>offsetAt = (\<lambda>t. tz), offsetOfLocal = (\<lambda>w. tz)\<rparr>"

definition easternAutumn2026 :: zone where
  "easternAutumn2026 =
     \<lparr>offsetAt = (\<lambda>t. if t < 1793512800000 then - 14400000 else - 18000000),
      offsetOfLocal = (\<lambda>w. if w < 1793498400000 then - 14400000 else - 18000000)\<rparr>"

section \<open>Records loaded from older files\<close>

text \<open>
  \<^verbatim>\<open>loadData\<close> returns whatever \<^verbatim>\<open>JSON.parse\<close> finds in the file. A record written
  before break tracking existed has no \<^verbatim>\<open>onBreak\<close>, \<^verbatim>\<open>breakStart\<close> and
  \<^verbatim>\<open>totalBreak\<close>. This layer keeps the JavaScript value of each such field: a missing field
  (\<^verbatim>\<open>undefined\<close>), \<^verbatim>\<open>null\<close>, a boolean, an integer, or the \<^verbatim>\<open>NaN\<close> that arithmetic
  on \<^verbatim>\<open>undefined\<close> produces. Strings, arrays and objects are left out.
\<close>

datatype jsval = JUndefined | JNull | JBool bool | JNum int | JNaN

record jsession =
  js_id :: string
  js_guildId :: string
  js_userId :: string
  js_departmentId :: string
  js_clockIn :: int
  js_clockOut :: jsval
  js_duration :: jsval
  js_onBreak :: jsval
  js_breakStart :: jsval
  js_totalBreak :: jsval

text \<open>\<^verbatim>\<open>typeof v === 'boolean'\<close> and \<^verbatim>\<open>typeof v === 'number'\<close> (\<^verbatim>\<open>NaN\<close> is a number).\<close>

fun isBoolean :: "jsval \<Rightarrow> bool" where
  "isBoolean (JBool b) = True"
| "isBoolean v = False"

fun isNumber :: "jsval \<Rightarrow> bool" where
  "isNumber (JNum n) = True"
| "isNumber JNaN = True"
| "isNumber v = False"

text \<open>Truthiness, and the numeric reading of a value (\<open>None\<close> is \<^verbatim>\<open>NaN\<close>).\<close>

fun truthyJ :: "jsval \<Rightarrow> bool" where
  "truthyJ (JBool b) = b"
| "truthyJ (JNum n) = (n \<noteq> 0)"
| "truthyJ v = False"

fun toNum :: "jsval \<Rightarrow> int option" where
  "toNum JUndefined = None"
| "toNum JNull = Some 0"
| "toNum (JBool b) = Some (if b then 1 else 0)"
| "toNum (JNum n) = Some n"
| "toNum JNaN = None"

fun ofNum :: "int option \<Rightarrow> jsval" where
  "ofNum None = JNaN"
| "ofNum (Some n) = JNum n"

text \<open>\<^verbatim>\<open>a + b\<close> and \<^verbatim>\<open>a - b\<close> on these values, \<^verbatim>\<open>Math.max(a, b)\<close>, and \<^verbatim>\<open>a || b\<close>.\<close>

definition addJ :: "jsval \<Rightarrow> jsval \<Rightarrow> jsval" where
  "addJ a b = ofNum (case toNum a of None \<Rightarrow> None
                     | Some x \<Rightarrow> (case toNum b of None \<Rightarrow> None | Some y \<Rightarrow> Some (x + y)))"

definition subJ :: "jsval \<Rightarrow> jsval \<Rightarrow> jsval" where
  "subJ a b = ofNum (case toNum a of None \<Rightarrow> None
                     | Some x \<Rightarrow> (case toNum b of None \<Rightarrow> None | Some y \<Rightarrow> Some (x - y)))"

definition maxJ :: "jsval \<Rightarrow> jsval \<Rightarrow> jsval" where
  "maxJ a b = ofNum (case toNum a of None \<Rightarrow> None
                     | Some x \<Rightarrow> (case toNum b of None \<Rightarrow> None | Some y \<Rightarrow> Some (max x y)))"

definition orJ :: "jsval \<Rightarrow> jsval \<Rightarrow> jsval" where
  "orJ a b = (if truthyJ a then a else b)"

text \<open>The body of \<^verbatim>\<open>closeSession\<close> of index.js (85-92) on the object it found.\<close>

definition closedFieldsJ :: "jsession \<Rightarrow> int \<Rightarrow> jsession" where
  "closedFieldsJ s t =
     (let tb = (if truthyJ (js_onBreak s) \<and> truthyJ (js_breakStart s)
                then addJ (js_totalBreak s) (subJ (JNum t) (js_breakStart s))
                else js_totalBreak s)
      in s\<lparr>js_clockOut := JNum t,
            js_duration := maxJ (subJ (subJ (JNum t) (JNum (js_clockIn s))) tb) (JNum 0),
            js_onBreak := JBool False, js_breakStart := JNull, js_totalBreak := tb\<rparr>)"

text \<open>
  The two \<^verbatim>\<open>typeof\<close> defaults of part_000, the same lines in \<^verbatim>\<open>closeSession\<close> (80-81)
  and in \<^verbatim>\<open>handleClockButton\<close> (516-517).
\<close>

definition breakDefaults :: "jsession \<Rightarrow> jsession" where
  "breakDefaults s =
     (let s1 = (if \<not> isBoolean (js_onBreak s) then s\<lparr>js_onBreak := JBool False\<rparr> else s)
      in if \<not> isNumber (js_totalBreak s1) then s1\<lparr>js_totalBreak := JNum 0\<rparr> else s1)"

text \<open>The body of \<^verbatim>\<open>closeSession\<close> of part_000 (79-97) on the object it found.\<close>

definition closedFieldsJ_p0 :: "jsession \<Rightarrow> int \<Rightarrow> jsession" where
  "closedFieldsJ_p0 s0 t =
     (let s = breakDefaults s0;
          totalBreak0 = orJ (js_totalBreak s) (JNum 0);
          totalBreak1 = (if truthyJ (js_onBreak s) \<and> truthyJ (js_breakStart s)
                         then addJ totalBreak0 (subJ (JNum t) (js_breakStart s))
                         else totalBreak0);
          rawDuration = subJ (JNum t) (JNum (js_clockIn s));
          workedDuration1 = maxJ (subJ rawDuration totalBreak1) (JNum 0)
      in s\<lparr>js_clockOut := JNum t, js_duration := workedDuration1,
            js_onBreak := JBool False, js_breakStart := JNull, js_totalBreak := totalBreak1\<rparr>)"

text \<open>
  \<^verbatim>\<open>closeSession\<close> on a loaded collection, for either body: \<open>None\<close> for an unknown id,
  else the returned \<^verbatim>\<open>{duration, breakTotal}\<close> and the collection in memory.
\<close>

definition closeSessionJ ::
  "(jsession \<Rightarrow> int \<Rightarrow> jsession) \<Rightarrow> jsession list \<Rightarrow> string \<Rightarrow> int
     \<Rightarrow> ((jsval \<times> jsval) \<times> jsession list) option" where
  "closeSessionJ body sessions sessionId t =
     (case find (\<lambda>x. js_id x = sessionId) sessions of
        None \<Rightarrow> None
      | Some s \<Rightarrow>
          Some ((js_duration (body s t), js_totalBreak (body s t)),
                updateFirst (\<lambda>x. js_id x = sessionId) (\<lambda>x. body x t) sessions))"

text \<open>
  The break branch of \<^verbatim>\<open>handleClockButton\<close> on the active session: index.js 365-385, and
  part_000 515-549, which applies the defaults first.
\<close>

definition breakToggleJ :: "jsession \<Rightarrow> int \<Rightarrow> jsession" where
  "breakToggleJ active now =
     (if \<not> truthyJ (js_onBreak active)
      then active\<lparr>js_onBreak := JBool True, js_breakStart := JNum now\<rparr>
      else (let br = subJ (JNum now) (js_breakStart active)
            in active\<lparr>js_onBreak := JBool False, js_breakStart := JNull,
                      js_totalBreak := addJ (js_totalBreak active) br\<rparr>))"

definition breakToggleJ_p0 :: "jsession \<Rightarrow> int \<Rightarrow> jsession" where
  "breakToggleJ_p0 active0 now =
     (let active = breakDefaults active0
      in if \<not> truthyJ (js_onBreak active)
         then active\<lparr>js_onBreak := JBool True, js_breakStart := JNum now\<rparr>
         else (let breakStart1 = orJ (js_breakStart active) (JNum now);
                   breakDuration = subJ (JNum now) breakStart1
               in active\<lparr>js_onBreak := JBool False, js_breakStart := JNull,
                         js_totalBreak :=
                           addJ (orJ (js_totalBreak active) (JNum 0)) breakDuration\<rparr>))"

text \<open>A session of the first layer as the JavaScript object it is.\<close>

fun ofOpt :: "int option \<Rightarrow> jsval" where
  "ofOpt None = JNull"
| "ofOpt (Some n) = JNum n"

definition asLoaded :: "session \<Rightarrow> jsession" where
  "asLoaded s =
     \<lparr>js_id = id_s s, js_guildId = guildId s, js_userId = userId s,
      js_departmentId = departmentId s, js_clockIn = clockIn s,
      js_clockOut = ofOpt (clockOut s), js_duration = ofOpt (duration s),
      js_onBreak = JBool (onBreak s), js_breakStart = ofOpt (breakStart s),
      js_totalBreak = JNum (totalBreak s)\<rparr>"

section \<open>Concrete data for the examples\<close>

text \<open>An event of user \<open>u\<close> in department \<open>d\<close> of guild \<open>g\<close>, and an open session of that key.\<close>

definition ev :: "string \<Rightarrow> int \<Rightarrow> string \<Rightarrow> event" where
  "ev a t i = \<lparr>ev_action = a, ev_dept = ''d'', ev_user = ''u'', ev_guild = ''g'',
               ev_now = t, ev_newId = i\<rparr>"

definition openSession :: session where
  "openSession = \<lparr>id_s = ''a'', guildId = ''g'', userId = ''u'', departmentId = ''d'',
                  clockIn = 100, clockOut = None, duration = None, onBreak = False,
                  breakStart = None, totalBreak = 0\<rparr>"

text \<open>A session on a break that started at timestamp 0, and one whose breaks exceed 1000 ms.\<close>

definition breakAtZero :: session where
  "breakAtZero = \<lparr>id_s = ''a'', guildId = ''g'', userId = ''u'', departmentId = ''d'',
                  clockIn = 0, clockOut = None, duration = None, onBreak = True,
                  breakStart = Some 0, totalBreak = 0\<rparr>"

definition longBreaks :: session where
  "longBreaks = \<lparr>id_s = ''a'', guildId = ''g'', userId = ''u'', departmentId = ''d'',
                 clockIn = 0, clockOut = None, duration = None, onBreak = False,
                 breakStart = None, totalBreak = 5000\<rparr>"

text \<open>A session on a break since 4000 with 1000 ms of earlier breaks; a closed session.\<close>

definition onBreakSession :: session where
  "onBreakSession = \<lparr>id_s = ''a'', guildId = ''g'', userId = ''u'', departmentId = ''d'',
                     clockIn = 0, clockOut = None, duration = None, onBreak = True,
                     breakStart = Some 4000, totalBreak = 1000\<rparr>"

definition closedOnce :: session where
  "closedOnce = \<lparr>id_s = ''a'', guildId = ''g'', userId = ''u'', departmentId = ''d'',
                 clockIn = 100, clockOut = Some 200, duration = Some 100, onBreak = False,
                 breakStart = None, totalBreak = 0\<rparr>"

text \<open>A session of user \<open>u\<close> in department \<open>d\<close> closed at \<open>c\<close> after \<open>w\<close> worked milliseconds.\<close>

definition closedAt :: "string \<Rightarrow> int \<Rightarrow> int \<Rightarrow> session" where
  "closedAt u c w = \<lparr>id_s = ''s'', guildId = ''g'', userId = u, departmentId = ''d'',
                     clockIn = 0, clockOut = Some c, duration = Some w, onBreak = False,
                     breakStart = None, totalBreak = 0\<rparr>"

text \<open>A record with a duration and no \<open>clockOut\<close>, which no function of the bot writes.\<close>

definition durationWithoutClockOut :: session where
  "durationWithoutClockOut = \<lparr>id_s = ''s'', guildId = ''g'', userId = ''u'',
     departmentId = ''d'', clockIn = 0, clockOut = None, duration = Some 5, onBreak = False,
     breakStart = None, totalBreak = 0\<rparr>"

text \<open>An open session as older files hold it: the three break fields are missing.\<close>

definition legacySession :: jsession where
  "legacySession = \<lparr>js_id = ''a'', js_guildId = ''g'', js_userId = ''u'',
     js_departmentId = ''d'', js_clockIn = 1000, js_clockOut = JNull, js_duration = JNull,
     js_onBreak = JUndefined, js_breakStart = JUndefined, js_totalBreak = JUndefined\<rparr>"

section \<open>At most one open session per key\<close>

lemma length_updateFirst [simp]: "length (updateFirst P f xs) = length xs"
  by (induction xs) auto

lemma filter_updateFirst_le:
  assumes "\<And>x. Q (f x) \<Longrightarrow> Q x"
  shows "length (filter Q (updateFirst P f xs)) \<le> length (filter Q xs)"
  using assms by (induction xs) auto

lemma find_None_filter: "find P xs = None \<Longrightarrow> filter P xs = []"
  by (induction xs) (auto split: if_splits)

lemma isActive_closed: "\<not> isActive g u d (closedFields s t)"
  by (simp add: isActive_def closedFields_def)

lemma openCount_updateFirst:
  "(\<And>x. isActive g u d (f x) \<Longrightarrow> isActive g u d x) \<Longrightarrow>
   openCount (updateFirst P f ss) g u d \<le> openCount ss g u d"
  unfolding openCount_def by (rule filter_updateFirst_le)

lemma openCount_closeSession:
  "closeSession ss i t = Some (r, ss') \<Longrightarrow> openCount ss' g u d \<le> openCount ss g u d"
  unfolding closeSession_def
  by (auto split: option.splits intro!: openCount_updateFirst simp: isActive_closed)

lemma openCount_addSession:
  "openCount (addSession ss i g u d t) g' u' d' =
     openCount ss g' u' d' + (if g = g' \<and> u = u' \<and> d = d' then 1 else 0)"
  by (simp add: openCount_def addSession_def isActive_def)

lemma openCount_no_active:
  "getActiveSession ss g u d = None \<Longrightarrow> openCount ss g u d = 0"
  by (simp add: openCount_def getActiveSession_def find_None_filter)

lemma openCount_break_start:
  "openCount (updateFirst P (\<lambda>s. s\<lparr>onBreak := b, breakStart := bs\<rparr>) ss) g u d
     \<le> openCount ss g u d"
  by (rule openCount_updateFirst) (simp add: isActive_def)

lemma openCount_break_end:
  "openCount (updateFirst P
      (\<lambda>s. s\<lparr>onBreak := b, breakStart := bs, totalBreak := totalBreak s + c\<rparr>) ss) g u d
     \<le> openCount ss g u d"
  by (rule openCount_updateFirst) (simp add: isActive_def)

text \<open>One event, for any key, keeps the bound for the key \<open>(g, u, d)\<close>.\<close>

lemma openCount_handle:
  assumes "openCount ss g u d \<le> 1"
  shows "openCount (snd (handleClockButton ss a d' u' g' t i)) g u d \<le> 1"
proof (cases "getActiveSession ss g' u' d'")
  case None
  with assms openCount_no_active [OF None] show ?thesis
    by (auto simp: handleClockButton_def openCount_addSession)
next
  case active: (Some x)
  have "openCount (snd (handleClockButton ss a d' u' g' t i)) g u d \<le> openCount ss g u d"
  proof (cases "closeSession ss (id_s x) t")
    case None
    then show ?thesis using active
      by (simp add: handleClockButton_def Let_def openCount_break_start openCount_break_end)
  next
    case (Some r)
    then obtain q ss' where r: "r = (q, ss')" by (cases r)
    then have "openCount ss' g u d \<le> openCount ss g u d"
      using Some openCount_closeSession by blast
    then show ?thesis using Some r active
      by (simp add: handleClockButton_def Let_def openCount_break_start openCount_break_end
          split: prod.splits)
  qed
  with assms show ?thesis by simp
qed

lemma openCount_handle_p0:
  assumes "openCount ss g u d \<le> 1"
  shows "openCount (snd (handleClockButton_p0 ss a d' u' g' t i)) g u d \<le> 1"
proof (cases "getActiveSession ss g' u' d'")
  case None
  with assms openCount_no_active [OF None] show ?thesis
    by (auto simp: handleClockButton_p0_def openCount_addSession)
next
  case active: (Some x)
  have "openCount (snd (handleClockButton_p0 ss a d' u' g' t i)) g u d \<le> openCount ss g u d"
  proof (cases "closeSession ss (id_s x) t")
    case None
    then show ?thesis using active
      by (simp add: handleClockButton_p0_def Let_def openCount_break_start openCount_break_end)
  next
    case (Some r)
    then obtain q ss' where r: "r = (q, ss')" by (cases r)
    then have "openCount ss' g u d \<le> openCount ss g u d"
      using Some openCount_closeSession by blast
    then show ?thesis using Some r active
      by (simp add: handleClockButton_p0_def Let_def openCount_break_start openCount_break_end
          split: prod.splits)
  qed
  with assms show ?thesis by simp
qed

lemma openCount_run:
  "openCount ss g u d \<le> 1 \<Longrightarrow> openCount (run ss evs) g u d \<le> 1"
  unfolding run_def
proof (induction evs arbitrary: ss)
  case Nil
  then show ?case by simp
next
  case (Cons e evs)
  from Cons.prems have "openCount (step ss e) g u d \<le> 1"
    unfolding step_def by (rule openCount_handle)
  then show ?case using Cons.IH by simp
qed

lemma openCount_run_p0:
  "openCount ss g u d \<le> 1 \<Longrightarrow> openCount (run_p0 ss evs) g u d \<le> 1"
  unfolding run_p0_def
proof (induction evs arbitrary: ss)
  case Nil
  then show ?case by simp
next
  case (Cons e evs)
  from Cons.prems have "openCount (step_p0 ss e) g u d \<le> 1"
    unfolding step_p0_def by (rule openCount_handle_p0)
  then show ?case using Cons.IH by simp
qed

lemma length_step:
  "length (step ss e) =
     length ss + (if ev_action e = ''clockin'' \<and>
                     getActiveSession ss (ev_guild e) (ev_user e) (ev_dept e) = None
                  then 1 else 0)"
  by (auto simp: step_def handleClockButton_def closeSession_def addSession_def Let_def
      split: option.splits)

lemma length_step_p0:
  "length (step_p0 ss e) =
     length ss + (if ev_action e = ''clockin'' \<and>
                     getActiveSession ss (ev_guild e) (ev_user e) (ev_dept e) = None
                  then 1 else 0)"
  by (auto simp: step_p0_def handleClockButton_p0_def closeSession_def addSession_def Let_def
      split: option.splits)

text \<open>
  Claim C1. Start from any stored collection with at most one open session for the key
  \<open>(g, u, d)\<close> and handle any sequence of button events (for this key or any other, with any
  action word, timestamp and generated id). After every prefix of the sequence the key has at
  most one session whose \<open>clockOut\<close> is null, in both implementations. A single event changes
  the number of stored sessions only when it is a clock-in for which \<open>getActiveSession\<close>
  finds nothing, and then it adds exactly one.
\<close>

theorem C1_at_most_one_open_session:
  assumes "openCount ss g u d \<le> 1"
  shows "openCount (run ss (take n evs)) g u d \<le> 1
       \<and> openCount (run_p0 ss (take n evs)) g u d \<le> 1
       \<and> length (step ss e) =
           length ss + (if ev_action e = ''clockin'' \<and>
                           getActiveSession ss (ev_guild e) (ev_user e) (ev_dept e) = None
                        then 1 else 0)
       \<and> length (step_p0 ss e) =
           length ss + (if ev_action e = ''clockin'' \<and>
                           getActiveSession ss (ev_guild e) (ev_user e) (ev_dept e) = None
                        then 1 else 0)"
  using assms openCount_run openCount_run_p0 length_step length_step_p0 by blast

theorem C1_at_most_one_open_session_witness:
  "openCount [] ''g'' ''u'' ''d'' \<le> 1
   \<and> openCount (run [] (take 5 [ev ''clockin'' 1 ''a'', ev ''clockin'' 2 ''b'',
          ev ''break'' 3 ''c'', ev ''clockout'' 5 ''d'', ev ''clockin'' 7 ''e'']))
        ''g'' ''u'' ''d'' \<le> 1
   \<and> length (run [] [ev ''clockin'' 1 ''a'', ev ''clockin'' 2 ''b'',
          ev ''break'' 3 ''c'', ev ''clockout'' 5 ''d'', ev ''clockin'' 7 ''e'']) = 2"
proof -
  have h: "openCount [] ''g'' ''u'' ''d'' \<le> 1"
    by (simp add: openCount_def)
  have l: "length (run [] [ev ''clockin'' 1 ''a'', ev ''clockin'' 2 ''b'',
          ev ''break'' 3 ''c'', ev ''clockout'' 5 ''d'', ev ''clockin'' 7 ''e'']) = 2"
    by (simp add: run_def step_def handleClockButton_def ev_def getActiveSession_def
        addSession_def isActive_def closeSession_def closedFields_def)
  show ?thesis
    using h l
      C1_at_most_one_open_session [OF h, of 5 "[ev ''clockin'' 1 ''a'', ev ''clockin'' 2 ''b'',
          ev ''break'' 3 ''c'', ev ''clockout'' 5 ''d'', ev ''clockin'' 7 ''e'']"]
    by blast
qed

section \<open>Rejected events\<close>

text \<open>
  Claim C6. In every stored collection, a clock-in for a key that has an active session, and a
  break or a clock-out for a key that has none, is answered with the rejection message of the
  file, and the stored collection after the event is the collection before it.
\<close>

theorem C6_rejections_leave_store_unchanged:
  "(getActiveSession ss g u d \<noteq> None \<longrightarrow>
      handleClockButton ss ''clockin'' d u g t i = (Rejected ''Already clocked in!'', ss)
    \<and> handleClockButton_p0 ss ''clockin'' d u g t i =
        (Rejected ''You are already clocked in for this department. Please clock out first.'',
         ss))
 \<and> (getActiveSession ss g u d = None \<longrightarrow> a = ''break'' \<or> a = ''clockout'' \<longrightarrow>
      handleClockButton ss a d u g t i = (Rejected ''You are not clocked in.'', ss)
    \<and> handleClockButton_p0 ss a d u g t i =
        (Rejected ''You are not currently clocked in for this department.'', ss))"
  by (auto simp: handleClockButton_def handleClockButton_p0_def)

theorem C6_rejections_leave_store_unchanged_witness:
  "getActiveSession [openSession] ''g'' ''u'' ''d'' \<noteq> None
 \<and> handleClockButton [openSession] ''clockin'' ''d'' ''u'' ''g'' 200 ''b'' =
     (Rejected ''Already clocked in!'', [openSession])
 \<and> getActiveSession [openSession] ''g'' ''v'' ''d'' = None
 \<and> handleClockButton [openSession] ''clockout'' ''d'' ''v'' ''g'' 200 ''b'' =
     (Rejected ''You are not clocked in.'', [openSession])
 \<and> handleClockButton_p0 [openSession] ''break'' ''d'' ''v'' ''g'' 200 ''b'' =
     (Rejected ''You are not currently clocked in for this department.'', [openSession])"
proof -
  have a: "getActiveSession [openSession] ''g'' ''u'' ''d'' \<noteq> None"
    by (simp add: getActiveSession_def isActive_def openSession_def)
  have n: "getActiveSession [openSession] ''g'' ''v'' ''d'' = None"
    by (simp add: getActiveSession_def isActive_def openSession_def)
  show ?thesis
    using a n
      C6_rejections_leave_store_unchanged
        [of "[openSession]" "''g''" "''u''" "''d''" 200 "''b''" "''clockout''"]
      C6_rejections_leave_store_unchanged
        [of "[openSession]" "''g''" "''v''" "''d''" 200 "''b''" "''clockout''"]
      C6_rejections_leave_store_unchanged
        [of "[openSession]" "''g''" "''v''" "''d''" 200 "''b''" "''break''"]
    by simp
qed

section \<open>Closing a session\<close>

lemma find_updateFirst:
  "find P xs = Some x \<Longrightarrow> P (f x) \<Longrightarrow> find P (updateFirst P f xs) = Some (f x)"
  by (induction xs) (auto split: if_splits)

lemma id_closedFields [simp]: "id_s (closedFields s t) = id_s s"
  by (simp add: closedFields_def)

lemma find_id: "find (\<lambda>x. id_s x = i) ss = Some s \<Longrightarrow> id_s s = i"
  by (induction ss) (auto split: if_splits)

lemma storedAfterClose_found:
  assumes "find (\<lambda>x. id_s x = i) ss = Some s"
  shows "storedAfterClose ss i t = Some (closedFields s t)"
  using assms find_id [OF assms]
  by (simp add: storedAfterClose_def closeSession_def find_updateFirst)

lemma closeResult_found:
  "find (\<lambda>x. id_s x = i) ss = Some s \<Longrightarrow> closeResult ss i t = Some (workedDuration s t, foldedBreak s t)"
  by (simp add: closeResult_def closeSession_def)

lemma closeSession_unknown:
  "find (\<lambda>x. id_s x = i) ss = None \<Longrightarrow> closeSession ss i t = None"
  by (simp add: closeSession_def)

text \<open>
  What \<^verbatim>\<open>closeSession\<close> does in both files, for every session \<open>s\<close> that \<^verbatim>\<open>find\<close>
  returns for the id. The guard \<^verbatim>\<open>s.onBreak && s.breakStart\<close> is a truthiness test: the
  break in progress is folded into \<open>totalBreak\<close> as \<open>t - breakStart\<close> when \<open>onBreak\<close> is
  true and \<open>breakStart\<close> is neither null nor 0. The function returns
  \<open>duration = max (t - clockIn - totalBreak) 0\<close> with that \<open>totalBreak\<close>, and the session
  found by id afterwards has \<open>clockOut = t\<close>, that duration, \<open>onBreak = false\<close>,
  \<open>breakStart = null\<close> and that \<open>totalBreak\<close>. So for every break that started at a
  timestamp other than 0 the close is as claim C2 has it, and the scenario clock-in at 0, break
  at 1000, break end at 4000, clock-out at 10000 ends, in both handlers, with one closed
  session of duration 7000 and totalBreak 3000.
\<close>

lemma closeSession_folds_break:
  assumes "find (\<lambda>x. id_s x = sid) ss = Some s"
  shows "\<exists>tb dur.
      tb = (case breakStart s of
              Some b \<Rightarrow> if onBreak s \<and> b \<noteq> 0 then totalBreak s + (t - b) else totalBreak s
            | None \<Rightarrow> totalBreak s)
    \<and> dur = max (t - clockIn s - tb) 0
    \<and> closeResult ss sid t = Some (dur, tb)
    \<and> storedAfterClose ss sid t =
        Some (s\<lparr>clockOut := Some t, duration := Some dur, onBreak := False,
                breakStart := None, totalBreak := tb\<rparr>)
    \<and> run [] [ev ''clockin'' 0 ''a'', ev ''break'' 1000 ''b'', ev ''break'' 4000 ''c'',
               ev ''clockout'' 10000 ''e''] =
        [\<lparr>id_s = ''a'', guildId = ''g'', userId = ''u'', departmentId = ''d'', clockIn = 0,
          clockOut = Some 10000, duration = Some 7000, onBreak = False, breakStart = None,
          totalBreak = 3000\<rparr>]
    \<and> run_p0 [] [ev ''clockin'' 0 ''a'', ev ''break'' 1000 ''b'', ev ''break'' 4000 ''c'',
               ev ''clockout'' 10000 ''e''] =
        [\<lparr>id_s = ''a'', guildId = ''g'', userId = ''u'', departmentId = ''d'', clockIn = 0,
          clockOut = Some 10000, duration = Some 7000, onBreak = False, breakStart = None,
          totalBreak = 3000\<rparr>]"
proof -
  have tb: "foldedBreak s t = (case breakStart s of
              Some b \<Rightarrow> if onBreak s \<and> b \<noteq> 0 then totalBreak s + (t - b) else totalBreak s
            | None \<Rightarrow> totalBreak s)"
    by (simp add: foldedBreak_def split: option.splits)
  have r1: "run [] [ev ''clockin'' 0 ''a'', ev ''break'' 1000 ''b'', ev ''break'' 4000 ''c'',
               ev ''clockout'' 10000 ''e''] =
        [\<lparr>id_s = ''a'', guildId = ''g'', userId = ''u'', departmentId = ''d'', clockIn = 0,
          clockOut = Some 10000, duration = Some 7000, onBreak = False, breakStart = None,
          totalBreak = 3000\<rparr>]"
    by (simp add: run_def step_def handleClockButton_def ev_def getActiveSession_def
        addSession_def isActive_def closeSession_def closedFields_def workedDuration_def
        foldedBreak_def)
  have r2: "run_p0 [] [ev ''clockin'' 0 ''a'', ev ''break'' 1000 ''b'', ev ''break'' 4000 ''c'',
               ev ''clockout'' 10000 ''e''] =
        [\<lparr>id_s = ''a'', guildId = ''g'', userId = ''u'', departmentId = ''d'', clockIn = 0,
          clockOut = Some 10000, duration = Some 7000, onBreak = False, breakStart = None,
          totalBreak = 3000\<rparr>]"
    by (simp add: run_p0_def step_p0_def handleClockButton_p0_def ev_def getActiveSession_def
        addSession_def isActive_def closeSession_def closedFields_def workedDuration_def
        foldedBreak_def)
  show ?thesis
    using storedAfterClose_found [OF assms, of t] closeResult_found [OF assms, of t] r1 r2
    unfolding tb [symmetric]
    by (simp add: closedFields_def workedDuration_def)
qed


lemma closeSession_folds_break_example:
  "find (\<lambda>x. id_s x = ''a'') [onBreakSession] = Some onBreakSession
   \<and> closeResult [onBreakSession] ''a'' 10000 = Some (3000, 7000)
   \<and> storedAfterClose [onBreakSession] ''a'' 10000 =
       Some (onBreakSession\<lparr>clockOut := Some 10000, duration := Some 3000, onBreak := False,
               breakStart := None, totalBreak := 7000\<rparr>)"
proof -
  have h: "find (\<lambda>x. id_s x = ''a'') [onBreakSession] = Some onBreakSession"
    by (simp add: onBreakSession_def)
  show ?thesis
    using h closeSession_folds_break [OF h, of 10000]
    by (simp add: onBreakSession_def)
qed

text \<open>
  Claim C2: for every session found by id, \<^verbatim>\<open>closeSession\<close> first folds a break in
  progress (\<open>onBreak\<close> true, \<open>breakStart\<close> not null) into \<open>totalBreak\<close> as
  \<open>t - breakStart\<close>, then sets \<open>duration = max (t - clockIn - totalBreak) 0\<close>. The code
  misses the break that started at timestamp 0, for which the guard is falsy: the session is
  on a break since 0 with a \<open>breakStart\<close> that is not null, and closing it at 10000 returns
  duration 10000 and break total 0 and stores \<open>totalBreak = 0\<close>, where the claim has
  duration 0 and \<open>totalBreak = 10000\<close>. The events clock-in at 0, break at 0, clock-out at
  10000 store the same through both handlers.
\<close>

theorem C2_break_started_at_zero_not_folded:
  "onBreak breakAtZero \<and> breakStart breakAtZero = Some 0
   \<and> closeResult [breakAtZero] ''a'' 10000 = Some (10000, 0)
   \<and> storedAfterClose [breakAtZero] ''a'' 10000 =
        Some (breakAtZero\<lparr>clockOut := Some 10000, duration := Some 10000, onBreak := False,
                breakStart := None, totalBreak := 0\<rparr>)
   \<and> map_option totalBreak (storedAfterClose [breakAtZero] ''a'' 10000)
        \<noteq> Some (totalBreak breakAtZero + (10000 - 0))
   \<and> run [] [ev ''clockin'' 0 ''a'', ev ''break'' 0 ''b'', ev ''clockout'' 10000 ''c''] =
        [\<lparr>id_s = ''a'', guildId = ''g'', userId = ''u'', departmentId = ''d'', clockIn = 0,
          clockOut = Some 10000, duration = Some 10000, onBreak = False, breakStart = None,
          totalBreak = 0\<rparr>]
   \<and> run_p0 [] [ev ''clockin'' 0 ''a'', ev ''break'' 0 ''b'', ev ''clockout'' 10000 ''c''] =
        [\<lparr>id_s = ''a'', guildId = ''g'', userId = ''u'', departmentId = ''d'', clockIn = 0,
          clockOut = Some 10000, duration = Some 10000, onBreak = False, breakStart = None,
          totalBreak = 0\<rparr>]"
  by (simp add: breakAtZero_def closeResult_def storedAfterClose_def closeSession_def
      closedFields_def workedDuration_def foldedBreak_def run_def step_def run_p0_def
      step_p0_def handleClockButton_def handleClockButton_p0_def ev_def getActiveSession_def
      addSession_def isActive_def)

text \<open>
  Claim C5, as amended. After \<^verbatim>\<open>closeSession\<close> the session found by id has
  \<open>clockOut = t\<close>, its \<open>clockIn\<close> unchanged and a duration
  \<open>max (clockOut - clockIn - totalBreak) 0\<close>, which is never negative. The floor bounds the
  duration only: \<open>totalBreak \<le> clockOut - clockIn\<close> holds exactly when nothing was floored
  away, that is when \<open>duration + totalBreak = clockOut - clockIn\<close>.
\<close>

theorem C5_closed_session_bounds:
  assumes "find (\<lambda>x. id_s x = sid) ss = Some s"
  shows "\<exists>s' dur.
      storedAfterClose ss sid t = Some s'
    \<and> clockOut s' = Some t \<and> clockIn s' = clockIn s \<and> duration s' = Some dur
    \<and> 0 \<le> dur
    \<and> dur = max (t - clockIn s' - totalBreak s') 0
    \<and> (totalBreak s' \<le> t - clockIn s' \<longleftrightarrow> dur + totalBreak s' = t - clockIn s')"
  using storedAfterClose_found [OF assms, of t]
  by (auto simp: closedFields_def workedDuration_def)

theorem C5_closed_session_bounds_witness:
  "find (\<lambda>x. id_s x = ''a'') [openSession] = Some openSession
   \<and> storedAfterClose [openSession] ''a'' 200 = Some closedOnce
   \<and> totalBreak closedOnce \<le> 200 - clockIn closedOnce"
proof -
  have h: "find (\<lambda>x. id_s x = ''a'') [openSession] = Some openSession"
    by (simp add: openSession_def)
  have c: "storedAfterClose [openSession] ''a'' 200 = Some closedOnce"
    by (simp add: openSession_def closedOnce_def storedAfterClose_def closeSession_def
        closedFields_def workedDuration_def foldedBreak_def)
  show ?thesis
    using h c C5_closed_session_bounds [OF h, of 200]
    by (simp add: closedOnce_def)
qed

text \<open>
  Claim C5 as stated fails: a session with 5000 ms of breaks that is closed 1000 ms after its
  clock-in is stored with duration 0 and \<open>totalBreak = 5000\<close>, more than
  \<open>clockOut - clockIn = 1000\<close>.
\<close>

theorem C5_counterexample:
  "storedAfterClose [longBreaks] ''a'' 1000 =
     Some (longBreaks\<lparr>clockOut := Some 1000, duration := Some 0\<rparr>)
   \<and> \<not> totalBreak (longBreaks\<lparr>clockOut := Some 1000, duration := Some 0\<rparr>)
         \<le> 1000 - clockIn (longBreaks\<lparr>clockOut := Some 1000, duration := Some 0\<rparr>)"
  by (simp add: longBreaks_def storedAfterClose_def closeSession_def
      closedFields_def workedDuration_def foldedBreak_def)

section \<open>A second clock-out\<close>

lemma filter_active_closed:
  assumes "distinct (map id_s ss)" and "find (isActive g u d) ss = Some a"
    and "length (filter (isActive g u d) ss) \<le> 1"
  shows "filter (isActive g u d)
           (updateFirst (\<lambda>x. id_s x = id_s a) (\<lambda>x. closedFields x t) ss) = []"
  using assms
proof (induction ss)
  case Nil
  then show ?case by simp
next
  case (Cons x xs)
  show ?case
  proof (cases "isActive g u d x")
    case True
    with Cons.prems have "a = x" and "filter (isActive g u d) xs = []" by simp_all
    then show ?thesis by (simp add: isActive_closed)
  next
    case False
    with Cons.prems have f: "find (isActive g u d) xs = Some a" by simp
    then have "a \<in> set xs" by (induction xs) (auto split: if_splits)
    with Cons.prems have "id_s x \<noteq> id_s a" by auto
    with False Cons f show ?thesis by simp
  qed
qed

lemma filter_Nil_find: "filter P xs = [] \<Longrightarrow> find P xs = None"
  by (induction xs) (auto split: if_splits)

lemma find_active_id:
  "find (isActive g u d) ss = Some a \<Longrightarrow> find (\<lambda>x. id_s x = id_s a) ss \<noteq> None"
  by (induction ss) (auto split: if_splits)

lemma clockout_closes:
  assumes "distinct (map id_s ss)" and "openCount ss g u d \<le> 1"
    and "getActiveSession ss g u d = Some a"
  shows "\<exists>dur brk tot ss'.
           handleClockButton ss ''clockout'' d u g t i = (ClockedOut dur brk tot, ss')
         \<and> handleClockButton_p0 ss ''clockout'' d u g t i = (ClockedOut dur brk tot, ss')
         \<and> getActiveSession ss' g u d = None"
proof -
  let ?ss' = "updateFirst (\<lambda>x. id_s x = id_s a) (\<lambda>x. closedFields x t) ss"
  from assms have "filter (isActive g u d) ?ss' = []"
    by (intro filter_active_closed) (simp_all add: getActiveSession_def openCount_def)
  then have n: "getActiveSession ?ss' g u d = None"
    by (simp add: getActiveSession_def filter_Nil_find)
  from assms(3) obtain s where s: "find (\<lambda>x. id_s x = id_s a) ss = Some s"
    using find_active_id by (fastforce simp: getActiveSession_def)
  then have c: "closeSession ss (id_s a) t = Some ((workedDuration s t, foldedBreak s t), ?ss')"
    by (simp add: closeSession_def)
  show ?thesis using n c assms(3)
    by (simp add: handleClockButton_def handleClockButton_p0_def)
qed

text \<open>
  Claim C4, as amended. \<^verbatim>\<open>closeSession\<close> has no check that the session is still open; the
  protection is the handler's re-lookup. In a stored collection with distinct ids and at most
  one open session for the key, a clock-out for a key with an active session is accepted, and
  a second clock-out for the same key, at any timestamp, is then rejected by both handlers and
  leaves the stored collection as the first clock-out saved it.
\<close>

theorem C4_second_clock_out_rejected:
  assumes "distinct (map id_s ss)" and "openCount ss g u d \<le> 1"
    and "getActiveSession ss g u d \<noteq> None"
  shows "\<exists>dur brk tot ss'.
           handleClockButton ss ''clockout'' d u g t i = (ClockedOut dur brk tot, ss')
         \<and> handleClockButton_p0 ss ''clockout'' d u g t i = (ClockedOut dur brk tot, ss')
         \<and> handleClockButton ss' ''clockout'' d u g t' i' =
             (Rejected ''You are not clocked in.'', ss')
         \<and> handleClockButton_p0 ss' ''clockout'' d u g t' i' =
             (Rejected ''You are not currently clocked in for this department.'', ss')"
proof -
  from assms(3) obtain a where a: "getActiveSession ss g u d = Some a" by auto
  from clockout_closes [OF assms(1,2) a, of t i]
  obtain dur brk tot ss' where
    h: "handleClockButton ss ''clockout'' d u g t i = (ClockedOut dur brk tot, ss')"
       "handleClockButton_p0 ss ''clockout'' d u g t i = (ClockedOut dur brk tot, ss')"
       "getActiveSession ss' g u d = None"
    by blast
  from h(3) have "handleClockButton ss' ''clockout'' d u g t' i' =
             (Rejected ''You are not clocked in.'', ss')"
    and "handleClockButton_p0 ss' ''clockout'' d u g t' i' =
             (Rejected ''You are not currently clocked in for this department.'', ss')"
    by (simp_all add: handleClockButton_def handleClockButton_p0_def)
  with h show ?thesis by blast
qed

theorem C4_second_clock_out_rejected_witness:
  "distinct (map id_s [openSession]) \<and> openCount [openSession] ''g'' ''u'' ''d'' \<le> 1
   \<and> getActiveSession [openSession] ''g'' ''u'' ''d'' \<noteq> None
   \<and> handleClockButton [openSession] ''clockout'' ''d'' ''u'' ''g'' 200 ''b'' =
       (ClockedOut 100 0 100, [closedOnce])
   \<and> handleClockButton [closedOnce] ''clockout'' ''d'' ''u'' ''g'' 300 ''c'' =
       (Rejected ''You are not clocked in.'', [closedOnce])"
proof -
  have h1: "distinct (map id_s [openSession])" by simp
  have h2: "openCount [openSession] ''g'' ''u'' ''d'' \<le> 1"
    by (simp add: openCount_def)
  have h3: "getActiveSession [openSession] ''g'' ''u'' ''d'' \<noteq> None"
    by (simp add: getActiveSession_def isActive_def openSession_def)
  have c: "handleClockButton [openSession] ''clockout'' ''d'' ''u'' ''g'' 200 ''b'' =
       (ClockedOut 100 0 100, [closedOnce])"
    by (simp add: handleClockButton_def getActiveSession_def isActive_def openSession_def
        closedOnce_def closeSession_def closedFields_def workedDuration_def foldedBreak_def
        getUserTotalDuration_def)
  show ?thesis
    using h1 h2 h3 c
      C4_second_clock_out_rejected [OF h1 h2 h3, of 200 "''b''" 300 "''c''"]
    by auto
qed

text \<open>
  Claim C4 as stated fails for \<^verbatim>\<open>closeSession\<close> itself: a second call on the same id, with
  a later timestamp, is not rejected and overwrites \<open>clockOut\<close> and \<open>duration\<close>.
\<close>

theorem C4_counterexample:
  "closeSession [openSession] ''a'' 200 = Some ((100, 0), [closedOnce])
   \<and> closeSession [closedOnce] ''a'' 300 =
       Some ((200, 0), [closedOnce\<lparr>clockOut := Some 300, duration := Some 200\<rparr>])
   \<and> [closedOnce\<lparr>clockOut := Some 300, duration := Some 200\<rparr>] \<noteq> [closedOnce]"
  by (simp add: openSession_def closedOnce_def closeSession_def closedFields_def
      workedDuration_def foldedBreak_def)

section \<open>Windowed totals\<close>

lemma foldl_add_sum: "foldl (\<lambda>a b. a + f b) (z::int) xs = z + sum_list (map f xs)"
  by (induction xs arbitrary: z) simp_all

lemma foldl_cond_sum:
  "foldl (\<lambda>total s. if P s then total + f s else total) (z::int) xs =
     z + sum_list (map f (filter P xs))"
  by (induction xs arbitrary: z) simp_all

lemma inRange_p0_iff: "inRange_p0 a b s \<longleftrightarrow> closedInWindow a b s"
  by (auto simp: inRange_p0_def closedInWindow_def split: option.splits)

lemma inRange_iff:
  "(duration s \<noteq> None \<longrightarrow> clockOut s \<noteq> None) \<Longrightarrow> inRange a b s \<longleftrightarrow> closedInWindow a b s"
  by (auto simp: inRange_def closedInWindow_def split: option.splits)

lemma getUserTotalInRange_sum:
  "getUserTotalInRange ss g u a b =
     sum_list (map worked (filter (\<lambda>s. guildId s = g \<and> userId s = u \<and> inRange a b s) ss))"
  by (simp add: getUserTotalInRange_def foldl_add_sum worked_def cong: map_cong)

lemma getDepartmentTotalInRange_sum:
  "getDepartmentTotalInRange ss g d a b =
     sum_list (map worked (filter (\<lambda>s. guildId s = g \<and> departmentId s = d \<and> inRange a b s) ss))"
  by (simp add: getDepartmentTotalInRange_def foldl_add_sum worked_def cong: map_cong)

lemma getUserTotalInRange_p0_sum:
  "getUserTotalInRange_p0 ss g u a b =
     sum_list (map worked (filter (\<lambda>s. guildId s = g \<and> userId s = u \<and> inRange_p0 a b s) ss))"
proof -
  have "getUserTotalInRange_p0 ss g u a b =
      foldl (\<lambda>total s. if guildId s = g \<and> userId s = u \<and> inRange_p0 a b s
                         then total + worked s else total) 0 ss"
    unfolding getUserTotalInRange_p0_def worked_def
    by (rule arg_cong [where f = "\<lambda>f. foldl f 0 ss"]) (auto simp: fun_eq_iff)
  then show ?thesis by (simp add: foldl_cond_sum)
qed

lemma getDepartmentTotalInRange_p0_sum:
  "getDepartmentTotalInRange_p0 ss g d a b =
     sum_list (map worked (filter (\<lambda>s. guildId s = g \<and> departmentId s = d \<and> inRange_p0 a b s) ss))"
proof -
  have "getDepartmentTotalInRange_p0 ss g d a b =
      foldl (\<lambda>total s. if guildId s = g \<and> departmentId s = d \<and> inRange_p0 a b s
                         then total + worked s else total) 0 ss"
    unfolding getDepartmentTotalInRange_p0_def worked_def
    by (rule arg_cong [where f = "\<lambda>f. foldl f 0 ss"]) (auto simp: fun_eq_iff)
  then show ?thesis by (simp add: foldl_cond_sum)
qed

lemma map_of_mapSet: "map_of (mapSet k v kvs) = (map_of kvs)(k \<mapsto> v)"
  by (induction kvs) (auto simp: fun_eq_iff)

lemma keys_mapSet: "fst ` set (mapSet k v kvs) = insert k (fst ` set kvs)"
proof (induction kvs)
  case Nil
  then show ?case by simp
next
  case (Cons p kvs)
  obtain k' v' where p: "p = (k', v')" by (cases p)
  show ?case
  proof (cases "k' = k")
    case True
    with p show ?thesis by simp
  next
    case False
    with p Cons.IH show ?thesis by (simp add: insert_commute)
  qed
qed

lemma distinct_mapSet: "distinct (map fst kvs) \<Longrightarrow> distinct (map fst (mapSet k v kvs))"
proof (induction kvs)
  case Nil
  then show ?case by simp
next
  case (Cons p kvs)
  obtain k' v' where p: "p = (k', v')" by (cases p)
  show ?case
  proof (cases "k' = k")
    case True
    with Cons.prems p show ?thesis by simp
  next
    case False
    have "k' \<notin> fst ` set (mapSet k v kvs)"
      using Cons.prems p False unfolding keys_mapSet by simp
    with Cons p False show ?thesis by simp
  qed
qed

lemma orZero_simps [simp]: "orZero None = 0" "orZero (Some v) = v"
  by (simp_all add: orZero_def)

lemma sum_mapSet:
  "sum_list (map snd (mapSet k v kvs)) = sum_list (map snd kvs) - orZero (map_of kvs k) + v"
  by (induction kvs) auto

lemma sum_addTo:
  "sum_list (map snd (addTo P totals s)) =
     sum_list (map snd totals) + (if P s then worked s else 0)"
  by (simp add: addTo_def sum_mapSet)

lemma sum_foldl_addTo:
  "sum_list (map snd (foldl (addTo P) totals ss)) =
     sum_list (map snd totals) + sum_list (map worked (filter P ss))"
  by (induction ss arbitrary: totals) (simp_all add: sum_addTo)

lemma distinct_foldl_addTo:
  "distinct (map fst totals) \<Longrightarrow> distinct (map fst (foldl (addTo P) totals ss))"
  by (induction ss arbitrary: totals) (simp_all add: addTo_def distinct_mapSet)

lemma keys_foldl_addTo:
  "fst ` set (foldl (addTo P) totals ss) =
     fst ` set totals \<union> userId ` {s \<in> set ss. P s}"
proof (induction ss arbitrary: totals)
  case Nil
  then show ?case by simp
next
  case (Cons s ss)
  have "fst ` set (addTo P totals s) =
          fst ` set totals \<union> (if P s then {userId s} else {})"
    by (simp add: addTo_def keys_mapSet)
  then show ?case unfolding foldl_Cons Cons.IH by auto
qed

lemma map_of_foldl_addTo:
  "map_of (foldl (addTo P) totals ss) u =
     (if \<exists>s \<in> set ss. P s \<and> userId s = u
      then Some (orZero (map_of totals u) + sum_list (map worked (filter (\<lambda>s. P s \<and> userId s = u) ss)))
      else map_of totals u)"
proof (induction ss arbitrary: totals)
  case Nil
  then show ?case by simp
next
  case (Cons s ss)
  show ?case
    by (simp add: Cons.IH) (auto simp: addTo_def map_of_mapSet)
qed

lemma sum_insort_key: "sum_list (map g (insort_key f x xs)) = (g x :: int) + sum_list (map g xs)"
  by (induction xs) auto

lemma sum_sort_key: "sum_list (map g (sort_key f xs)) = (sum_list (map g xs) :: int)"
  by (induction xs) (auto simp: sum_insort_key)

lemma distinct_keys_insort:
  "distinct (map fst (insort_key f x xs)) \<longleftrightarrow> fst x \<notin> fst ` set xs \<and> distinct (map fst xs)"
  by (induction xs) (auto simp: set_insort_key)

lemma distinct_keys_sort: "distinct (map fst (sort_key f xs)) \<longleftrightarrow> distinct (map fst xs)"
  by (induction xs) (auto simp: distinct_keys_insort)

lemma totals_index:
  "getDepartmentTotalsInRange ss g d a b =
     sort_key (\<lambda>(u, total). - total)
       (foldl (addTo (\<lambda>s. guildId s = g \<and> departmentId s = d \<and> inRange a b s)) [] ss)"
  unfolding getDepartmentTotalsInRange_def
  by (rule arg_cong [where f = "\<lambda>f. sort_key _ (foldl f [] ss)"])
     (auto simp: fun_eq_iff addTo_def worked_def)

lemma totals_p0:
  "getDepartmentTotalsInRange_p0 ss g d a b =
     sort_key (\<lambda>(u, total). - total)
       (foldl (addTo (\<lambda>s. guildId s = g \<and> departmentId s = d \<and> inRange_p0 a b s)) [] ss)"
  unfolding getDepartmentTotalsInRange_p0_def
  by (rule arg_cong [where f = "\<lambda>f. sort_key _ (foldl f [] ss)"])
     (auto simp: fun_eq_iff addTo_def worked_def)

lemma descending_sort_key:
  "sorted_wrt (\<lambda>x y. x \<ge> y) (map snd (sort_key (\<lambda>(u, total). - total) (xs :: (string \<times> int) list)))"
proof -
  have "sorted (map (\<lambda>(u, total). - total) (sort_key (\<lambda>(u, total). - total) xs))"
    by (rule sorted_sort_key)
  then show ?thesis
    by (simp add: sorted_wrt_map case_prod_beta)
qed


lemma map_of_sort_key:
  "distinct (map fst xs) \<Longrightarrow> map_of (sort_key f xs) = map_of xs"
  by (subst map_of_inject_set) (simp_all add: distinct_keys_sort)

lemma map_of_totals:
  "map_of (sort_key f (foldl (addTo P) [] ss)) u =
     (if \<exists>s \<in> set ss. P s \<and> userId s = u
      then Some (sum_list (map worked (filter (\<lambda>s. P s \<and> userId s = u) ss)))
      else None)"
proof -
  have "distinct (map fst (foldl (addTo P) [] ss))"
    by (rule distinct_foldl_addTo) simp
  then show ?thesis
    by (simp add: map_of_sort_key map_of_foldl_addTo)
qed

text \<open>
  Claim C10. For every stored collection, guild, department and window, the department total
  equals the sum of the \<open>total\<close> fields of the entries of the per-user query with the same
  arguments, in both files.
\<close>

theorem C10_department_total_is_sum_of_user_totals:
  "getDepartmentTotalInRange ss g d a b =
     sum_list (map snd (getDepartmentTotalsInRange ss g d a b))
 \<and> getDepartmentTotalInRange_p0 ss g d a b =
     sum_list (map snd (getDepartmentTotalsInRange_p0 ss g d a b))"
  by (simp add: totals_index totals_p0 sum_sort_key sum_foldl_addTo
      getDepartmentTotalInRange_sum getDepartmentTotalInRange_p0_sum)

lemma totals_properties:
  fixes P :: "session \<Rightarrow> bool" and ss :: "session list"
  defines "r \<equiv> sort_key (\<lambda>(u, total). - total) (foldl (addTo P) [] ss)"
  shows "distinct (map fst r)"
    and "fst ` set r = userId ` {s \<in> set ss. P s}"
    and "\<forall>(u, total) \<in> set r. total = sum_list (map worked (filter (\<lambda>s. P s \<and> userId s = u) ss))"
    and "sorted_wrt (\<lambda>x y. x \<ge> y) (map snd r)"
proof -
  have d: "distinct (map fst (foldl (addTo P) [] ss))"
    by (rule distinct_foldl_addTo) simp
  then show dr: "distinct (map fst r)" by (simp add: r_def distinct_keys_sort)
  show "fst ` set r = userId ` {s \<in> set ss. P s}"
    by (simp add: r_def keys_foldl_addTo)
  show "sorted_wrt (\<lambda>x y. x \<ge> y) (map snd r)"
    unfolding r_def by (rule descending_sort_key)
  show "\<forall>(u, total) \<in> set r. total = sum_list (map worked (filter (\<lambda>s. P s \<and> userId s = u) ss))"
  proof (clarify)
    fix u total assume "(u, total) \<in> set r"
    with dr have "map_of r u = Some total" by simp
    then show "total = sum_list (map worked (filter (\<lambda>s. P s \<and> userId s = u) ss))"
      unfolding r_def map_of_totals by (simp split: if_splits)
  qed
qed

lemma foldl_addTo_cong:
  "(\<And>s. s \<in> set ss \<Longrightarrow> P s = Q s) \<Longrightarrow> foldl (addTo P) acc ss = foldl (addTo Q) acc ss"
  by (induction ss arbitrary: acc) (simp_all add: addTo_def)

lemma totals_p0_window:
  "getDepartmentTotalsInRange_p0 ss g d a b =
     sort_key (\<lambda>(u, total). - total)
       (foldl (addTo (\<lambda>s. guildId s = g \<and> departmentId s = d \<and> closedInWindow a b s)) [] ss)"
  by (simp add: totals_p0 inRange_p0_iff)

lemma totals_index_window:
  assumes "\<forall>s \<in> set ss. duration s \<noteq> None \<longrightarrow> clockOut s \<noteq> None"
  shows "getDepartmentTotalsInRange ss g d a b =
     sort_key (\<lambda>(u, total). - total)
       (foldl (addTo (\<lambda>s. guildId s = g \<and> departmentId s = d \<and> closedInWindow a b s)) [] ss)"
proof -
  have "foldl (addTo (\<lambda>s. guildId s = g \<and> departmentId s = d \<and> inRange a b s)) [] ss =
        foldl (addTo (\<lambda>s. guildId s = g \<and> departmentId s = d \<and> closedInWindow a b s)) [] ss"
    by (rule foldl_addTo_cong) (use assms in \<open>simp add: inRange_iff\<close>)
  then show ?thesis by (simp add: totals_index)
qed

text \<open>
  Claim C7. For every collection of sessions, the per-user query returns one entry for each
  user who has at least one session of the guild and department with a non-null duration and a
  \<open>clockOut\<close> in the window \<open>[startMs, endMs)\<close>: the user ids of the result are distinct
  and are exactly those users, each total is the sum of the durations of that user's closed
  in-window sessions, and the totals are in descending order. part_000 does so on every
  collection, index.js on every collection of sessions of the data model, in which a session
  with a duration has a \<open>clockOut\<close>. With user A having 2000 + 3000 ms and user B having
  10000 ms the result is \<open>[(B, 10000), (A, 5000)]\<close>.
\<close>

theorem C7_totals_by_user_sorted_descending:
  "distinct (map fst (getDepartmentTotalsInRange_p0 ss g d a b))
 \<and> fst ` set (getDepartmentTotalsInRange_p0 ss g d a b) =
     userId ` {s \<in> set ss. guildId s = g \<and> departmentId s = d \<and> closedInWindow a b s}
 \<and> (\<forall>(u, total) \<in> set (getDepartmentTotalsInRange_p0 ss g d a b).
       total = sum_list (map worked (filter
         (\<lambda>s. (guildId s = g \<and> departmentId s = d \<and> closedInWindow a b s) \<and> userId s = u)
         ss)))
 \<and> sorted_wrt (\<lambda>x y. x \<ge> y) (map snd (getDepartmentTotalsInRange_p0 ss g d a b))
 \<and> ((\<forall>s \<in> set ss. duration s \<noteq> None \<longrightarrow> clockOut s \<noteq> None) \<longrightarrow>
      distinct (map fst (getDepartmentTotalsInRange ss g d a b))
    \<and> fst ` set (getDepartmentTotalsInRange ss g d a b) =
        userId ` {s \<in> set ss. guildId s = g \<and> departmentId s = d \<and> closedInWindow a b s}
    \<and> (\<forall>(u, total) \<in> set (getDepartmentTotalsInRange ss g d a b).
          total = sum_list (map worked (filter
            (\<lambda>s. (guildId s = g \<and> departmentId s = d \<and> closedInWindow a b s) \<and> userId s = u)
            ss)))
    \<and> sorted_wrt (\<lambda>x y. x \<ge> y) (map snd (getDepartmentTotalsInRange ss g d a b)))
 \<and> getDepartmentTotalsInRange
      [closedAt ''A'' 10 2000, closedAt ''B'' 20 10000, closedAt ''A'' 30 3000] ''g'' ''d'' 0 100
      = [(''B'', 10000), (''A'', 5000)]
 \<and> getDepartmentTotalsInRange_p0
      [closedAt ''A'' 10 2000, closedAt ''B'' 20 10000, closedAt ''A'' 30 3000] ''g'' ''d'' 0 100
      = [(''B'', 10000), (''A'', 5000)]"
proof -
  have e1: "getDepartmentTotalsInRange
      [closedAt ''A'' 10 2000, closedAt ''B'' 20 10000, closedAt ''A'' 30 3000] ''g'' ''d'' 0 100
      = [(''B'', 10000), (''A'', 5000)]"
    by (simp add: getDepartmentTotalsInRange_def closedAt_def inRange_def)
  have e2: "getDepartmentTotalsInRange_p0
      [closedAt ''A'' 10 2000, closedAt ''B'' 20 10000, closedAt ''A'' 30 3000] ''g'' ''d'' 0 100
      = [(''B'', 10000), (''A'', 5000)]"
    by (simp add: getDepartmentTotalsInRange_p0_def closedAt_def inRange_p0_def)
  note w = totals_properties
    [of "\<lambda>s. guildId s = g \<and> departmentId s = d \<and> closedInWindow a b s" ss]
  have p0: "distinct (map fst (getDepartmentTotalsInRange_p0 ss g d a b))
    \<and> fst ` set (getDepartmentTotalsInRange_p0 ss g d a b) =
        userId ` {s \<in> set ss. guildId s = g \<and> departmentId s = d \<and> closedInWindow a b s}
    \<and> (\<forall>(u, total) \<in> set (getDepartmentTotalsInRange_p0 ss g d a b).
          total = sum_list (map worked (filter
            (\<lambda>s. (guildId s = g \<and> departmentId s = d \<and> closedInWindow a b s) \<and> userId s = u)
            ss)))
    \<and> sorted_wrt (\<lambda>x y. x \<ge> y) (map snd (getDepartmentTotalsInRange_p0 ss g d a b))"
    unfolding totals_p0_window using w by blast
  have ix: "distinct (map fst (getDepartmentTotalsInRange ss g d a b))
    \<and> fst ` set (getDepartmentTotalsInRange ss g d a b) =
        userId ` {s \<in> set ss. guildId s = g \<and> departmentId s = d \<and> closedInWindow a b s}
    \<and> (\<forall>(u, total) \<in> set (getDepartmentTotalsInRange ss g d a b).
          total = sum_list (map worked (filter
            (\<lambda>s. (guildId s = g \<and> departmentId s = d \<and> closedInWindow a b s) \<and> userId s = u)
            ss)))
    \<and> sorted_wrt (\<lambda>x y. x \<ge> y) (map snd (getDepartmentTotalsInRange ss g d a b))"
    if "\<forall>s \<in> set ss. duration s \<noteq> None \<longrightarrow> clockOut s \<noteq> None"
    unfolding totals_index_window [OF that] using w by blast
  from p0 ix e1 e2 show ?thesis by blast
qed

theorem C7_totals_by_user_sorted_descending_witness:
  "getDepartmentTotalsInRange
      [closedAt ''A'' 10 2000, closedAt ''B'' 20 10000, closedAt ''A'' 30 3000] ''g'' ''d'' 0 100
      = [(''B'', 10000), (''A'', 5000)]
   \<and> (''A'', 5000) \<in> set (getDepartmentTotalsInRange
      [closedAt ''A'' 10 2000, closedAt ''B'' 20 10000, closedAt ''A'' 30 3000] ''g'' ''d'' 0 100)
   \<and> sum_list (map worked (filter
         (\<lambda>s. (guildId s = ''g'' \<and> departmentId s = ''d'' \<and> closedInWindow 0 100 s)
               \<and> userId s = ''A'')
         [closedAt ''A'' 10 2000, closedAt ''B'' 20 10000, closedAt ''A'' 30 3000])) = 5000"
proof -
  have h: "\<forall>s \<in> set [closedAt ''A'' 10 2000, closedAt ''B'' 20 10000, closedAt ''A'' 30 3000].
             duration s \<noteq> None \<longrightarrow> clockOut s \<noteq> None"
    by (simp add: closedAt_def)
  show ?thesis
    using h C7_totals_by_user_sorted_descending
      [of "[closedAt ''A'' 10 2000, closedAt ''B'' 20 10000, closedAt ''A'' 30 3000]"
          "''g''" "''d''" 0 100]
    by (simp add: closedAt_def closedInWindow_def worked_def)
qed

text \<open>
  Claim C3. For every collection of sessions and every window, the three windowed queries
  count exactly the sessions with a non-null duration whose \<open>clockOut\<close> lies in
  \<open>[startMs, endMs)\<close>: the two totals are the sum of the durations of those sessions of the
  user or department, and the per-user query has for each user the sum of those sessions of
  that user, and no entry for a user without one. part_000 does so on every collection,
  index.js on every collection of sessions of the data model, in which a session with a
  duration has a \<open>clockOut\<close>. A session with \<open>clockOut = startMs\<close> is in the window of a
  non-empty range, a session with \<open>clockOut = endMs\<close> is not.
\<close>

theorem C3_window_is_half_open:
  "getUserTotalInRange_p0 ss g u a b =
     sum_list (map worked
       (filter (\<lambda>s. guildId s = g \<and> userId s = u \<and> closedInWindow a b s) ss))
 \<and> getDepartmentTotalInRange_p0 ss g d a b =
     sum_list (map worked
       (filter (\<lambda>s. guildId s = g \<and> departmentId s = d \<and> closedInWindow a b s) ss))
 \<and> map_of (getDepartmentTotalsInRange_p0 ss g d a b) u =
     (if \<exists>s \<in> set ss. (guildId s = g \<and> departmentId s = d \<and> closedInWindow a b s)
                        \<and> userId s = u
      then Some (sum_list (map worked (filter
             (\<lambda>s. (guildId s = g \<and> departmentId s = d \<and> closedInWindow a b s)
                   \<and> userId s = u) ss)))
      else None)
 \<and> ((\<forall>s \<in> set ss. duration s \<noteq> None \<longrightarrow> clockOut s \<noteq> None) \<longrightarrow>
      getUserTotalInRange ss g u a b =
        sum_list (map worked
          (filter (\<lambda>s. guildId s = g \<and> userId s = u \<and> closedInWindow a b s) ss))
    \<and> getDepartmentTotalInRange ss g d a b =
        sum_list (map worked
          (filter (\<lambda>s. guildId s = g \<and> departmentId s = d \<and> closedInWindow a b s) ss))
    \<and> map_of (getDepartmentTotalsInRange ss g d a b) u =
        (if \<exists>s \<in> set ss. (guildId s = g \<and> departmentId s = d \<and> closedInWindow a b s)
                           \<and> userId s = u
         then Some (sum_list (map worked (filter
                (\<lambda>s. (guildId s = g \<and> departmentId s = d \<and> closedInWindow a b s)
                      \<and> userId s = u) ss)))
         else None))
 \<and> (closedInWindow a b (s\<lparr>clockOut := Some a, duration := Some w\<rparr>) \<longleftrightarrow> a < b)
 \<and> \<not> closedInWindow a b (s\<lparr>clockOut := Some b, duration := Some w\<rparr>)"
proof -
  have p0: "(\<lambda>s. guildId s = g \<and> departmentId s = d \<and> inRange_p0 a b s) =
            (\<lambda>s. guildId s = g \<and> departmentId s = d \<and> closedInWindow a b s)"
    by (simp add: inRange_p0_iff)
  have c1: "getUserTotalInRange_p0 ss g u a b =
     sum_list (map worked
       (filter (\<lambda>s. guildId s = g \<and> userId s = u \<and> closedInWindow a b s) ss))"
    by (simp add: getUserTotalInRange_p0_sum inRange_p0_iff)
  have c2: "getDepartmentTotalInRange_p0 ss g d a b =
     sum_list (map worked
       (filter (\<lambda>s. guildId s = g \<and> departmentId s = d \<and> closedInWindow a b s) ss))"
    by (simp add: getDepartmentTotalInRange_p0_sum inRange_p0_iff)
  have c3: "map_of (getDepartmentTotalsInRange_p0 ss g d a b) u =
     (if \<exists>s \<in> set ss. (guildId s = g \<and> departmentId s = d \<and> closedInWindow a b s)
                        \<and> userId s = u
      then Some (sum_list (map worked (filter
             (\<lambda>s. (guildId s = g \<and> departmentId s = d \<and> closedInWindow a b s)
                   \<and> userId s = u) ss)))
      else None)"
    unfolding totals_p0 p0 by (rule map_of_totals)
  have c4: "getUserTotalInRange ss g u a b =
        sum_list (map worked
          (filter (\<lambda>s. guildId s = g \<and> userId s = u \<and> closedInWindow a b s) ss))
    \<and> getDepartmentTotalInRange ss g d a b =
        sum_list (map worked
          (filter (\<lambda>s. guildId s = g \<and> departmentId s = d \<and> closedInWindow a b s) ss))
    \<and> map_of (getDepartmentTotalsInRange ss g d a b) u =
        (if \<exists>s \<in> set ss. (guildId s = g \<and> departmentId s = d \<and> closedInWindow a b s)
                           \<and> userId s = u
         then Some (sum_list (map worked (filter
                (\<lambda>s. (guildId s = g \<and> departmentId s = d \<and> closedInWindow a b s)
                      \<and> userId s = u) ss)))
         else None)"
    if inv: "\<forall>s \<in> set ss. duration s \<noteq> None \<longrightarrow> clockOut s \<noteq> None"
  proof -
    have eq: "\<And>s. s \<in> set ss \<Longrightarrow> inRange a b s \<longleftrightarrow> closedInWindow a b s"
      using inv by (simp add: inRange_iff)
    have f1: "filter (\<lambda>s. guildId s = g \<and> userId s = u \<and> inRange a b s) ss =
              filter (\<lambda>s. guildId s = g \<and> userId s = u \<and> closedInWindow a b s) ss"
      by (rule filter_cong) (simp_all add: eq)
    have f2: "filter (\<lambda>s. guildId s = g \<and> departmentId s = d \<and> inRange a b s) ss =
              filter (\<lambda>s. guildId s = g \<and> departmentId s = d \<and> closedInWindow a b s) ss"
      by (rule filter_cong) (simp_all add: eq)
    have f3: "filter (\<lambda>s. (guildId s = g \<and> departmentId s = d \<and> inRange a b s)
                           \<and> userId s = u) ss =
              filter (\<lambda>s. (guildId s = g \<and> departmentId s = d \<and> closedInWindow a b s)
                           \<and> userId s = u) ss"
      by (rule filter_cong) (simp_all add: eq)
    have ex: "(\<exists>s \<in> set ss. (guildId s = g \<and> departmentId s = d \<and> inRange a b s)
                              \<and> userId s = u) \<longleftrightarrow>
              (\<exists>s \<in> set ss. (guildId s = g \<and> departmentId s = d \<and> closedInWindow a b s)
                              \<and> userId s = u)"
      using eq by blast
    have "map_of (getDepartmentTotalsInRange ss g d a b) u =
        (if \<exists>s \<in> set ss. (guildId s = g \<and> departmentId s = d \<and> inRange a b s)
                           \<and> userId s = u
         then Some (sum_list (map worked (filter
                (\<lambda>s. (guildId s = g \<and> departmentId s = d \<and> inRange a b s)
                      \<and> userId s = u) ss)))
         else None)"
      unfolding totals_index by (rule map_of_totals)
    then show ?thesis
      unfolding f3 ex
      by (simp add: getUserTotalInRange_sum getDepartmentTotalInRange_sum f1 f2)
  qed
  have c5: "closedInWindow a b (s\<lparr>clockOut := Some a, duration := Some w\<rparr>) \<longleftrightarrow> a < b"
    by (simp add: closedInWindow_def)
  have c6: "\<not> closedInWindow a b (s\<lparr>clockOut := Some b, duration := Some w\<rparr>)"
    by (simp add: closedInWindow_def)
  from c1 c2 c3 c4 c5 c6 show ?thesis by blast
qed

theorem C3_window_is_half_open_witness:
  "getUserTotalInRange [closedAt ''A'' 10 2000, closedAt ''A'' 20 300] ''g'' ''A'' 10 20 = 2000
   \<and> getUserTotalInRange_p0 [closedAt ''A'' 10 2000, closedAt ''A'' 20 300] ''g'' ''A'' 10 20
       = 2000
   \<and> closedInWindow 10 20 (closedAt ''A'' 10 2000)
   \<and> \<not> closedInWindow 10 20 (closedAt ''A'' 20 300)"
proof -
  have h: "\<forall>s \<in> set [closedAt ''A'' 10 2000, closedAt ''A'' 20 300].
       duration s \<noteq> None \<longrightarrow> clockOut s \<noteq> None"
    by (simp add: closedAt_def)
  show ?thesis
    using h C3_window_is_half_open
      [of "[closedAt ''A'' 10 2000, closedAt ''A'' 20 300]" "''g''" "''A''" 10 20]
    by (simp add: closedAt_def closedInWindow_def worked_def)
qed

text \<open>
  Why index.js needs the data model's invariant: on a record with a duration and a null
  \<open>clockOut\<close>, which no function of the bot writes, its comparisons read null as 0 and the
  window \<open>[0, 10)\<close> counts the record; part_000 skips it.
\<close>

lemma index_js_reads_null_clockOut_as_zero:
  "duration durationWithoutClockOut = Some 5 \<and> clockOut durationWithoutClockOut = None
   \<and> \<not> closedInWindow 0 10 durationWithoutClockOut
   \<and> getUserTotalInRange [durationWithoutClockOut] ''g'' ''u'' 0 10 = 5
   \<and> getDepartmentTotalInRange [durationWithoutClockOut] ''g'' ''d'' 0 10 = 5
   \<and> getDepartmentTotalsInRange [durationWithoutClockOut] ''g'' ''d'' 0 10 = [(''u'', 5)]
   \<and> getUserTotalInRange_p0 [durationWithoutClockOut] ''g'' ''u'' 0 10 = 0"
  by (simp add: durationWithoutClockOut_def closedInWindow_def getUserTotalInRange_def
      getDepartmentTotalInRange_def getDepartmentTotalsInRange_def getUserTotalInRange_p0_def
      inRange_def inRange_p0_def orZero_def)

section \<open>Week ranges\<close>

text \<open>
  In a zone with one offset the current week is a window of seven days that contains the clock
  reading. In the week in which daylight saving ends the window is an hour longer.
\<close>

lemma getCurrentWeekRange_fixedZone:
  "endMs (getCurrentWeekRange (fixedZone tz) now)
     - startMs (getCurrentWeekRange (fixedZone tz) now) = 604800000
  \<and> startMs (getCurrentWeekRange (fixedZone tz) now) \<le> now
  \<and> now < endMs (getCurrentWeekRange (fixedZone tz) now)"
proof -
  define today where "today = (now + tz) div 86400000"
  define day where "day = (today + 4) mod 7"
  have d: "0 \<le> day" "day \<le> 6" by (simp_all add: day_def)
  define r where "r = (now + tz) mod 86400000"
  have r: "0 \<le> r" "r < 86400000" by (simp_all add: r_def)
  have "now + tz = today * 86400000 + r"
    by (simp add: today_def r_def)
  with r have t: "today * 86400000 \<le> now + tz" "now + tz < today * 86400000 + 86400000"
    by linarith+
  have m: "localMidnight (fixedZone tz) n = n * 86400000 - tz" for n
    by (simp add: localMidnight_def fixedZone_def dayMs_def)
  have l: "localDay (fixedZone tz) (n * 86400000 - tz) = n" for n
    by (simp add: localDay_def fixedZone_def dayMs_def)
  have s: "startMs (getCurrentWeekRange (fixedZone tz) now) = (today - day) * 86400000 - tz"
    by (simp add: getCurrentWeekRange_def Let_def m)
       (simp add: localDay_def fixedZone_def dayMs_def today_def day_def)
  have e: "endMs (getCurrentWeekRange (fixedZone tz) now) = (today - day + 7) * 86400000 - tz"
    by (simp add: getCurrentWeekRange_def Let_def m l)
       (simp add: localDay_def fixedZone_def dayMs_def today_def day_def)
  show ?thesis unfolding s e using d t by (simp add: algebra_simps)
qed

lemma getCurrentWeekRange_easternAutumn2026:
  "getCurrentWeekRange easternAutumn2026 1793707200000 =
     \<lparr>startMs = 1793505600000, endMs = 1794114000000\<rparr>"
  by (simp add: getCurrentWeekRange_def localDay_def localMidnight_def easternAutumn2026_def
      dayMs_def Let_def)

text \<open>
  Claim C8. For every clock reading (so for every day of the week), every time zone and every
  integer offset, in particular every non-negative one, \<^verbatim>\<open>getWeekRangeForOffset\<close> is the
  current week range at the same clock reading with \<open>startMs\<close> and \<open>endMs\<close> both moved back
  by \<open>offset * 604800000\<close> ms: offset 0 gives the current week range and offset 1 the range
  exactly 604800000 ms earlier.
\<close>

theorem C8_week_range_for_offset:
  "startMs (getWeekRangeForOffset z now offset) =
     startMs (getCurrentWeekRange z now) - offset * 604800000
 \<and> endMs (getWeekRangeForOffset z now offset) =
     endMs (getCurrentWeekRange z now) - offset * 604800000
 \<and> getWeekRangeForOffset z now 0 = getCurrentWeekRange z now
 \<and> getWeekRangeForOffset z now 1 =
     \<lparr>startMs = startMs (getCurrentWeekRange z now) - 604800000,
      endMs = endMs (getCurrentWeekRange z now) - 604800000\<rparr>"
  by (simp add: getWeekRangeForOffset_def Let_def)

section \<open>Records loaded from older files\<close>

text \<open>
  On a record whose break fields have the types of the first layer, both bodies of
  \<^verbatim>\<open>closeSession\<close> and both break branches compute what the first layer computes.
\<close>

lemma closedFieldsJ_asLoaded: "closedFieldsJ (asLoaded s) t = asLoaded (closedFields s t)"
  by (cases "breakStart s")
     (simp_all add: closedFieldsJ_def closedFields_def asLoaded_def workedDuration_def foldedBreak_def
      addJ_def subJ_def maxJ_def Let_def)

lemma breakDefaults_asLoaded: "breakDefaults (asLoaded s) = asLoaded s"
  by (simp add: breakDefaults_def asLoaded_def)

lemma closedFieldsJ_p0_asLoaded: "closedFieldsJ_p0 (asLoaded s) t = asLoaded (closedFields s t)"
  by (cases "breakStart s")
     (simp_all add: closedFieldsJ_p0_def closedFields_def breakDefaults_def asLoaded_def workedDuration_def foldedBreak_def
      addJ_def subJ_def maxJ_def orJ_def Let_def)

lemma breakToggleJ_asLoaded:
  "breakToggleJ (asLoaded s) now =
     asLoaded (if \<not> onBreak s then s\<lparr>onBreak := True, breakStart := Some now\<rparr>
               else s\<lparr>onBreak := False, breakStart := None,
                      totalBreak := totalBreak s + (now - toNumber (breakStart s))\<rparr>)"
  by (cases "breakStart s") (simp_all add: breakToggleJ_def asLoaded_def addJ_def subJ_def Let_def)

lemma breakToggleJ_p0_asLoaded:
  "breakToggleJ_p0 (asLoaded s) now =
     asLoaded (if \<not> onBreak s then s\<lparr>onBreak := True, breakStart := Some now\<rparr>
               else s\<lparr>onBreak := False, breakStart := None,
                      totalBreak := totalBreak s +
                        (now - (if truthy (breakStart s) then toNumber (breakStart s) else now))\<rparr>)"
  by (cases "breakStart s") (simp_all add: breakToggleJ_p0_def breakDefaults_def asLoaded_def addJ_def subJ_def orJ_def Let_def)

text \<open>
  part_000 applies the defaults before it reads the break fields: closing, or toggling the
  break of, a loaded record is closing or toggling the record in which a non-boolean
  \<open>onBreak\<close> is \<open>false\<close> and a non-number \<open>totalBreak\<close> is 0.
\<close>

lemma breakDefaults_idem: "breakDefaults (breakDefaults s) = breakDefaults s"
  by (simp add: breakDefaults_def Let_def)

lemma breakDefaults_fields:
  "js_onBreak (breakDefaults s) = (if isBoolean (js_onBreak s) then js_onBreak s else JBool False)"
  "js_totalBreak (breakDefaults s) = (if isNumber (js_totalBreak s) then js_totalBreak s else JNum 0)"
  "js_breakStart (breakDefaults s) = js_breakStart s"
  "js_clockIn (breakDefaults s) = js_clockIn s"
  by (simp_all add: breakDefaults_def Let_def)

lemma p0_defaults_first:
  "closedFieldsJ_p0 s t = closedFieldsJ_p0 (breakDefaults s) t"
  "breakToggleJ_p0 s now = breakToggleJ_p0 (breakDefaults s) now"
  by (simp_all add: closedFieldsJ_p0_def breakToggleJ_p0_def breakDefaults_idem)

text \<open>
  Claim C9 holds in part_000 (lemma \<open>p0_defaults_first\<close>) and fails in index.js, which has
  no defaults. For an open record without break fields, clocked in at 1000 and closed at 5000,
  \<^verbatim>\<open>closeSession\<close> of index.js returns the duration \<^verbatim>\<open>NaN\<close> and leaves \<open>totalBreak\<close>
  undefined, where the record with the defaults, and part_000 on the record as loaded, give
  the duration 4000 and \<open>totalBreak = 0\<close>. A break from 2000 to 3000 on that record makes
  \<open>totalBreak\<close> \<^verbatim>\<open>NaN\<close> in index.js and 1000 in part_000.
\<close>

theorem C9_index_js_has_no_break_defaults:
  "closeSessionJ closedFieldsJ [legacySession] ''a'' 5000 =
     Some ((JNaN, JUndefined),
           [legacySession\<lparr>js_clockOut := JNum 5000, js_duration := JNaN,
              js_onBreak := JBool False, js_breakStart := JNull\<rparr>])
 \<and> closeSessionJ closedFieldsJ [breakDefaults legacySession] ''a'' 5000 =
     Some ((JNum 4000, JNum 0),
           [legacySession\<lparr>js_clockOut := JNum 5000, js_duration := JNum 4000,
              js_onBreak := JBool False, js_breakStart := JNull, js_totalBreak := JNum 0\<rparr>])
 \<and> closeSessionJ closedFieldsJ_p0 [legacySession] ''a'' 5000 =
     Some ((JNum 4000, JNum 0),
           [legacySession\<lparr>js_clockOut := JNum 5000, js_duration := JNum 4000,
              js_onBreak := JBool False, js_breakStart := JNull, js_totalBreak := JNum 0\<rparr>])
 \<and> js_totalBreak (breakToggleJ (breakToggleJ legacySession 2000) 3000) = JNaN
 \<and> js_totalBreak (breakToggleJ_p0 (breakToggleJ_p0 legacySession 2000) 3000) = JNum 1000"
  by (simp add: closeSessionJ_def closedFieldsJ_def closedFieldsJ_p0_def breakDefaults_def
      breakToggleJ_def breakToggleJ_p0_def legacySession_def addJ_def subJ_def maxJ_def
      orJ_def)

end
